theory Spec2Isabelle
  imports Main
begin

section \<open>Field validation (package beads: ValidateHeartbeatTimeout, convoy stages)\<close>

text \<open>
  Go's \<open>error\<close> results are modelled as \<open>validation_error option\<close>: \<open>None\<close> is
  \<open>nil\<close>. Each constructor stands for one \<open>fmt.Errorf\<close> call of the source and carries
  the values formatted into its message; the two wrapping constructors stand for the
  \<open>%w\<close> wraps in ValidateConvoyStageTransition.
\<close>

datatype validation_error =
    TimeoutTooShort int int
  | TimeoutTooLong int int
  | InvalidConvoyStage string
  | CurrentStageError validation_error
  | NewStageError validation_error
  | InvalidStageTransition string string

text \<open>
  The constants of internal/witness/constants.go. The validator declares its own local
  constants \<open>minTimeout\<close> and \<open>maxTimeout\<close> with the same values.
\<close>

definition MinHeartbeatTimeout :: int where
  "MinHeartbeatTimeout = 60"

definition MaxHeartbeatTimeout :: int where
  "MaxHeartbeatTimeout = 3600"

definition DefaultHeartbeatTimeout :: int where
  "DefaultHeartbeatTimeout = 180"

text \<open>
  ValidateHeartbeatTimeout: two comparisons of the argument with constants. Nothing is
  computed from the argument, so Go's 64-bit \<open>int\<close> is read as a mathematical
  integer here.
\<close>

definition ValidateHeartbeatTimeout :: "int \<Rightarrow> validation_error option" where
  "ValidateHeartbeatTimeout timeoutSec =
     (let minTimeout = 60; maxTimeout = 3600 in
      if timeoutSec < minTimeout then Some (TimeoutTooShort timeoutSec minTimeout)
      else if timeoutSec > maxTimeout then Some (TimeoutTooLong timeoutSec maxTimeout)
      else None)"

text \<open>
  Modelled from the spec: the four stage constants, declared in a file of package beads
  that is not part of the sources at hand. Their values are the stage names of the data
  model (section 3.1), which TestConvoyStageConstants asserts as well.
\<close>

definition ConvoyStagePlanning :: string where
  "ConvoyStagePlanning = ''planning''"

definition ConvoyStageExecution :: string where
  "ConvoyStageExecution = ''execution''"

definition ConvoyStageReview :: string where
  "ConvoyStageReview = ''review''"

definition ConvoyStageComplete :: string where
  "ConvoyStageComplete = ''complete''"

text \<open>
  A Go map read \<open>m[k]\<close> yields the zero value of the element type for a missing key:
  \<open>false\<close> for \<open>map[string]bool\<close> and \<open>0\<close> for \<open>map[string]int\<close>.
\<close>

definition validStages :: "(string \<times> bool) list" where
  "validStages =
     [(ConvoyStagePlanning, True), (ConvoyStageExecution, True),
      (ConvoyStageReview, True), (ConvoyStageComplete, True)]"

definition lookup_bool :: "(string \<times> bool) list \<Rightarrow> string \<Rightarrow> bool" where
  "lookup_bool m k = (case map_of m k of None \<Rightarrow> False | Some b \<Rightarrow> b)"

definition ValidateConvoyStage :: "string \<Rightarrow> validation_error option" where
  "ValidateConvoyStage stage =
     (if \<not> lookup_bool validStages stage then Some (InvalidConvoyStage stage) else None)"

definition stageOrder :: "(string \<times> int) list" where
  "stageOrder =
     [(ConvoyStagePlanning, 1), (ConvoyStageExecution, 2),
      (ConvoyStageReview, 3), (ConvoyStageComplete, 4)]"

definition lookup_int :: "(string \<times> int) list \<Rightarrow> string \<Rightarrow> int" where
  "lookup_int m k = (case map_of m k of None \<Rightarrow> 0 | Some n \<Rightarrow> n)"

definition ValidateConvoyStageTransition :: "string \<Rightarrow> string \<Rightarrow> validation_error option" where
  "ValidateConvoyStageTransition currentStage newStage =
     (case ValidateConvoyStage currentStage of
        Some err \<Rightarrow> Some (CurrentStageError err)
      | None \<Rightarrow>
          (case ValidateConvoyStage newStage of
             Some err \<Rightarrow> Some (NewStageError err)
           | None \<Rightarrow>
               (let currentOrder = lookup_int stageOrder currentStage;
                    newOrder = lookup_int stageOrder newStage
                in if newOrder \<le> currentOrder
                   then Some (InvalidStageTransition currentStage newStage)
                   else None)))"

definition ValidateConvoyStageTransitionWithReopening ::
  "string \<Rightarrow> string \<Rightarrow> validation_error option" where
  "ValidateConvoyStageTransitionWithReopening currentStage newStage =
     (if currentStage = ConvoyStageComplete \<and> newStage = ConvoyStagePlanning then None
      else ValidateConvoyStageTransition currentStage newStage)"

text \<open>
  The order of the stages in the words of the specification: planning, execution,
  review, complete. A move is strictly forward when the new stage stands later in this
  list than the current one.
\<close>

definition convoy_stage_sequence :: "string list" where
  "convoy_stage_sequence = [''planning'', ''execution'', ''review'', ''complete'']"

definition strictly_forward :: "string \<Rightarrow> string \<Rightarrow> bool" where
  "strictly_forward c n =
     (\<exists>i j. i < j \<and> j < length convoy_stage_sequence \<and>
            convoy_stage_sequence ! i = c \<and> convoy_stage_sequence ! j = n)"


section \<open>The work store, as the engines call it\<close>

text \<open>
  An issue of the work store with the attributes the engines read and write. The close
  reason is what \<open>CloseWithReason\<close> records.
\<close>

record Issue =
  ID :: string
  Title :: string
  Description :: string
  Status :: string
  Priority :: int
  IssueType :: string
  Assignee :: string
  CloseReason :: string

text \<open>The error kinds the adapter raises.\<close>

datatype store_error = NotFoundError string | ConflictError | TransportError

text \<open>
  \<open>beads.UpdateOptions\<close>: a patch; a \<open>nil\<close> pointer (\<open>None\<close>) leaves the attribute
  as it is. The fields are prefixed because the record \<open>Issue\<close> has the plain names.
\<close>

record UpdateOptions =
  upd_Status :: "string option"
  upd_Assignee :: "string option"
  upd_Description :: "string option"

record ListOptions =
  list_Type :: string
  list_Status :: string
  list_Priority :: int

record CreateOptions =
  new_Title :: string
  new_Type :: string
  new_Priority :: int
  new_Description :: string

text \<open>
  Modelled from the spec: the methods \<open>Show\<close>, \<open>Update\<close>, \<open>List\<close>, \<open>Create\<close> and
  \<open>CloseWithReason\<close> of the adapter \<open>beads.Beads\<close>, which wrap an external
  command-line tool and whose code is not part of the sources at hand. Section 4.1:
  \<open>show(id)\<close> gives the issue or not-found; \<open>update(id, patch)\<close> is a partial patch
  of status, assignee and description; \<open>list(filter)\<close> filters by type, status
  (empty = any) and priority (-1 = any); \<open>create(options)\<close> returns the assigned id;
  \<open>close(id, reason)\<close>. The adapter raises NotFound, Conflict and Transport.
  The store is the list of its issues, in the order of their creation.
  A priority of the filter other than -1 keeps the issues of that priority only, 0
  included: the callers that want every priority pass -1 (SeedBuiltinMolecules, and the
  listing of the merge queue in mq.go: "Priority -1 means no priority filter (otherwise
  0 would filter to P0 only)").

  Whether a call fails for a reason outside the store's contents (Conflict, Transport)
  is not a function of the state modelled here, so every method takes the fault that
  strikes this call, if any, as its first argument. A call that fails leaves the store
  as it was.
\<close>

type_synonym store = "Issue list"

definition lookup_issue :: "store \<Rightarrow> string \<Rightarrow> Issue option" where
  "lookup_issue st i = find (\<lambda>x. ID x = i) st"

definition beads_Show :: "store_error option \<Rightarrow> store \<Rightarrow> string \<Rightarrow> store_error + Issue option" where
  "beads_Show fault st i =
     (case fault of
        Some e \<Rightarrow> Inl e
      | None \<Rightarrow>
          (case lookup_issue st i of
             None \<Rightarrow> Inl (NotFoundError i)
           | Some x \<Rightarrow> Inr (Some x)))"

definition apply_update :: "UpdateOptions \<Rightarrow> Issue \<Rightarrow> Issue" where
  "apply_update opts x =
     x\<lparr>Status := (case upd_Status opts of None \<Rightarrow> Status x | Some v \<Rightarrow> v),
       Assignee := (case upd_Assignee opts of None \<Rightarrow> Assignee x | Some v \<Rightarrow> v),
       Description := (case upd_Description opts of None \<Rightarrow> Description x | Some v \<Rightarrow> v)\<rparr>"

definition beads_Update ::
  "store_error option \<Rightarrow> store \<Rightarrow> string \<Rightarrow> UpdateOptions \<Rightarrow> store_error + store" where
  "beads_Update fault st i opts =
     (case fault of
        Some e \<Rightarrow> Inl e
      | None \<Rightarrow>
          (case lookup_issue st i of
             None \<Rightarrow> Inl (NotFoundError i)
           | Some _ \<Rightarrow> Inr (map (\<lambda>x. if ID x = i then apply_update opts x else x) st)))"

definition beads_CloseWithReason ::
  "store_error option \<Rightarrow> store \<Rightarrow> string \<Rightarrow> string \<Rightarrow> store_error + store" where
  "beads_CloseWithReason fault st reason i =
     (case fault of
        Some e \<Rightarrow> Inl e
      | None \<Rightarrow>
          (case lookup_issue st i of
             None \<Rightarrow> Inl (NotFoundError i)
           | Some _ \<Rightarrow>
               Inr (map (\<lambda>x. if ID x = i then x\<lparr>Status := ''closed'', CloseReason := reason\<rparr>
                              else x) st)))"

definition matches_filter :: "ListOptions \<Rightarrow> Issue \<Rightarrow> bool" where
  "matches_filter opts x \<longleftrightarrow>
     (list_Type opts = '''' \<or> IssueType x = list_Type opts) \<and>
     (list_Status opts = '''' \<or> Status x = list_Status opts) \<and>
     (list_Priority opts = - 1 \<or> Priority x = list_Priority opts)"

definition beads_List :: "store_error option \<Rightarrow> store \<Rightarrow> ListOptions \<Rightarrow> store_error + Issue list" where
  "beads_List fault st opts =
     (case fault of
        Some e \<Rightarrow> Inl e
      | None \<Rightarrow> Inr (filter (matches_filter opts) st))"

text \<open>
  \<open>Create\<close> takes the id the store assigns as an argument; a new issue is open and
  unassigned.
\<close>

definition beads_Create ::
  "store_error option \<Rightarrow> string \<Rightarrow> store \<Rightarrow> CreateOptions \<Rightarrow> store_error + (string \<times> store)" where
  "beads_Create fault fresh st opts =
     (case fault of
        Some e \<Rightarrow> Inl e
      | None \<Rightarrow>
          Inr (fresh,
               st @ [\<lparr>ID = fresh, Title = new_Title opts, Description = new_Description opts,
                      Status = ''open'', Priority = new_Priority opts,
                      IssueType = new_Type opts, Assignee = '''', CloseReason = ''''\<rparr>]))"


section \<open>Worker health check (package witness: CheckWorkerHealth)\<close>

text \<open>
  Go's \<open>time.Duration\<close> is a signed 64-bit count of nanoseconds and its arithmetic
  wraps around. Durations are integers here, with the wrap-around written out.
  On the 64-bit platforms Go's \<open>int\<close>, the result type of \<open>strconv.Atoi\<close>, has 64
  bits as well.
\<close>

definition wrap64 :: "int \<Rightarrow> int" where
  "wrap64 x = (x + 2 ^ 63) mod 2 ^ 64 - 2 ^ 63"

definition Second :: int where
  "Second = 1000000000"

definition minDuration :: int where
  "minDuration = - (2 ^ 63)"

definition maxDuration :: int where
  "maxDuration = 2 ^ 63 - 1"

text \<open>
  An instant is its count of nanoseconds since the Unix epoch. \<open>Time.Sub\<close> of Go's
  library returns the difference, or the largest (smallest) duration when the difference
  does not fit.
\<close>

definition time_Sub :: "int \<Rightarrow> int \<Rightarrow> int" where
  "time_Sub t u =
     (let d = t - u in
      if d < minDuration then minDuration
      else if d > maxDuration then maxDuration
      else d)"

text \<open>
  Modelled from the spec: the health and lifecycle constants and the struct
  \<open>AgentFields\<close>, declared in files of package beads that are not part of the sources
  at hand. The values are the names of the data model (section 3.1), which the tests in
  healthcheck_test.go use as well; the record has the five fields of an agent bead that
  the health check reads or writes.
\<close>

definition HealthHealthy :: string where
  "HealthHealthy = ''healthy''"

definition HealthStale :: string where
  "HealthStale = ''stale''"

definition HealthDead :: string where
  "HealthDead = ''dead''"

definition LifecycleCrashed :: string where
  "LifecycleCrashed = ''crashed''"

record AgentFields =
  LifecycleState :: string
  Health :: string
  LastHeartbeat :: string
  HeartbeatTimeout :: string
  AssignedWork :: string

datatype health_error =
    ListingAgents store_error
  | ParsingLastHeartbeat
  | ParsingHeartbeatTimeout
  | UpdatingAgentBead store_error
  | ReassigningWork health_error
  | GettingWorkItem string store_error
  | WorkItemNotFound string
  | UpdatingWorkItem store_error

text \<open>The field \<open>Error\<close> of the source is \<open>CheckError\<close> here.\<close>

record HealthCheckResult =
  AgentID :: string
  WorkerName :: string
  PreviousHealth :: string
  CurrentHealth :: string
  Action :: string
  CheckError :: "health_error option"

text \<open>
  What the health check takes from outside: the clock, the two parsers of Go's library
  (\<open>time.Parse\<close> with the RFC3339 layout, giving the instant, and \<open>strconv.Atoi\<close>),
  the two helpers of package beads whose code is not at hand (\<open>ParseAgentFields\<close>,
  \<open>FormatAgentDescription\<close>), and the faults of the store calls: of the one \<open>List\<close>
  call, of the \<open>Update\<close> of an agent bead (by agent id), and of the \<open>Show\<close> and the
  \<open>Update\<close> of a work item (by work id).
\<close>

record health_env =
  now :: int
  time_Parse :: "string \<Rightarrow> int option"
  strconv_Atoi :: "string \<Rightarrow> int option"
  ParseAgentFields :: "string \<Rightarrow> AgentFields option"
  FormatAgentDescription :: "string \<Rightarrow> AgentFields \<Rightarrow> string"
  list_fault :: "store_error option"
  agent_update_fault :: "string \<Rightarrow> store_error option"
  show_fault :: "string \<Rightarrow> store_error option"
  work_update_fault :: "string \<Rightarrow> store_error option"

text \<open>reassignOrphanWork: the store after the call and the error returned.\<close>

definition reassignOrphanWork ::
  "health_env \<Rightarrow> store \<Rightarrow> string \<Rightarrow> string \<Rightarrow> store \<times> health_error option" where
  "reassignOrphanWork env st workID deadWorkerID =
     (case beads_Show (show_fault env workID) st workID of
        Inl e \<Rightarrow> (st, Some (GettingWorkItem workID e))
      | Inr None \<Rightarrow> (st, Some (WorkItemNotFound workID))
      | Inr (Some issue) \<Rightarrow>
          if Status issue \<noteq> ''in_progress'' then (st, None)
          else
            (case beads_Update (work_update_fault env workID) st workID
                    \<lparr>upd_Status = Some ''open'', upd_Assignee = Some '''',
                     upd_Description = None\<rparr> of
               Inl e \<Rightarrow> (st, Some (UpdatingWorkItem e))
             | Inr st' \<Rightarrow> (st', None)))"

text \<open>
  The classification of lines 94 to 103: \<open>timeSince\<close> and \<open>timeout\<close> are durations,
  and \<open>2*timeout\<close> is a 64-bit product.
\<close>

definition newHealth_of :: "int \<Rightarrow> int \<Rightarrow> string" where
  "newHealth_of timeSince timeout =
     (if timeSince < timeout then HealthHealthy
      else if timeSince < wrap64 (2 * timeout) then HealthStale
      else HealthDead)"

text \<open>The right arrow of the action text, in UTF-8.\<close>

definition arrow :: string where
  "arrow = [CHR 0xE2, CHR 0x86, CHR 0x92]"

text \<open>
  The body of the loop over the agents, for one agent: the store after it, and the
  result row appended (\<open>None\<close> where the source continues without appending).
  The variable \<open>fields\<close> of the source is \<open>flds\<close>.
\<close>

definition checkAgent ::
  "health_env \<Rightarrow> Issue \<Rightarrow> store \<Rightarrow> store \<times> HealthCheckResult option" where
  "checkAgent env agent st =
     (let result = \<lparr>AgentID = ID agent, WorkerName = ID agent, PreviousHealth = '''',
                     CurrentHealth = '''', Action = '''', CheckError = None\<rparr>
      in
      case ParseAgentFields env (Description agent) of
        None \<Rightarrow> (st, None)
      | Some flds \<Rightarrow>
          if LastHeartbeat flds = '''' \<or> HeartbeatTimeout flds = '''' then (st, None)
          else
            (case time_Parse env (LastHeartbeat flds) of
               None \<Rightarrow> (st, Some (result\<lparr>CheckError := Some ParsingLastHeartbeat\<rparr>))
             | Some lastHeartbeat \<Rightarrow>
                 (case strconv_Atoi env (HeartbeatTimeout flds) of
                    None \<Rightarrow> (st, Some (result\<lparr>CheckError := Some ParsingHeartbeatTimeout\<rparr>))
                  | Some timeoutSec \<Rightarrow>
                      (let timeout = wrap64 (timeoutSec * Second);
                           timeSince = time_Sub (now env) lastHeartbeat;
                           result = result\<lparr>PreviousHealth := Health flds\<rparr>;
                           newHealth = newHealth_of timeSince timeout
                       in
                       if newHealth \<noteq> Health flds then
                         (let result = result\<lparr>CurrentHealth := newHealth\<rparr>;
                              flds = flds\<lparr>Health := newHealth\<rparr>;
                              flds =
                                (if newHealth = HealthDead \<and>
                                    LifecycleState flds \<noteq> LifecycleCrashed
                                 then flds\<lparr>LifecycleState := LifecycleCrashed\<rparr>
                                 else flds);
                              newDesc = FormatAgentDescription env (Title agent) flds
                          in
                          case beads_Update (agent_update_fault env (ID agent)) st (ID agent)
                                 \<lparr>upd_Status = None, upd_Assignee = None,
                                  upd_Description = Some newDesc\<rparr> of
                            Inl e \<Rightarrow> (st, Some (result\<lparr>CheckError := Some (UpdatingAgentBead e)\<rparr>))
                          | Inr st1 \<Rightarrow>
                              (let result =
                                     result\<lparr>Action := ''updated health: '' @ PreviousHealth result
                                                        @ '' '' @ arrow @ '' '' @ newHealth\<rparr>
                               in
                               if newHealth = HealthDead \<and> AssignedWork flds \<noteq> '''' then
                                 (case reassignOrphanWork env st1 (AssignedWork flds) (ID agent) of
                                    (st2, Some e) \<Rightarrow>
                                      (st2, Some (result\<lparr>CheckError := Some (ReassigningWork e)\<rparr>))
                                  | (st2, None) \<Rightarrow>
                                      (st2, Some (result\<lparr>Action := Action result
                                                     @ '', reassigned work '' @ AssignedWork flds\<rparr>)))
                               else (st1, Some result)))
                       else
                         (st, Some (result\<lparr>CurrentHealth := newHealth, Action := ''no change''\<rparr>))))))"

text \<open>
  The loop: the agents in the order \<open>List\<close> gave them, the rows in the same order.
  The call passes the type and the status and leaves the priority of the filter at Go's
  zero value.
\<close>

fun checkAgents ::
  "health_env \<Rightarrow> Issue list \<Rightarrow> store \<Rightarrow> HealthCheckResult list \<Rightarrow> store \<times> HealthCheckResult list" where
  "checkAgents env [] st results = (st, results)"
| "checkAgents env (agent # agents) st results =
     (case checkAgent env agent st of
        (st', None) \<Rightarrow> checkAgents env agents st' results
      | (st', Some r) \<Rightarrow> checkAgents env agents st' (results @ [r]))"

definition CheckWorkerHealth ::
  "health_env \<Rightarrow> store \<Rightarrow> store \<times> (health_error + HealthCheckResult list)" where
  "CheckWorkerHealth env st =
     (case beads_List (list_fault env) st
             \<lparr>list_Type = ''agent'', list_Status = ''open'', list_Priority = 0\<rparr> of
        Inl e \<Rightarrow> (st, Inl (ListingAgents e))
      | Inr agents \<Rightarrow>
          (case checkAgents env agents st [] of
             (st', results) \<Rightarrow> (st', Inr results)))"


text \<open>
  A concrete town for the health check, after scenario 2 of section 8.4: the polecat
  alice heartbeat 400 seconds before the check with a timeout of 180 seconds and holds
  the work item gt-123. The parsers of the environment are tables over the strings that
  occur; the description of an agent bead is written by \<open>example_format\<close>. The bead
  \<open>alice_bead_P2\<close> is the bead of alice with the priority 2, the priority an issue has
  when none is given (\<open>priority INTEGER DEFAULT 2\<close> in the schema of the store).
\<close>

definition example_parse_time :: "string \<Rightarrow> int option" where
  "example_parse_time = map_of [(''2026-02-06T10:00:00Z'', 1770372000 * Second)]"

definition example_atoi :: "string \<Rightarrow> int option" where
  "example_atoi = map_of [(''180'', 180)]"

definition example_format :: "string \<Rightarrow> AgentFields \<Rightarrow> string" where
  "example_format title f =
     title @ '' lifecycle_state: '' @ LifecycleState f @ '' health: '' @ Health f
       @ '' last_heartbeat: '' @ LastHeartbeat f
       @ '' heartbeat_timeout: '' @ HeartbeatTimeout f
       @ '' assigned_work: '' @ AssignedWork f"

definition alice_fields :: AgentFields where
  "alice_fields =
     \<lparr>LifecycleState = ''working'', Health = ''healthy'',
      LastHeartbeat = ''2026-02-06T10:00:00Z'', HeartbeatTimeout = ''180'',
      AssignedWork = ''gt-123''\<rparr>"

definition example_parse_agent :: "string \<Rightarrow> AgentFields option" where
  "example_parse_agent = map_of [(example_format ''alice'' alice_fields, alice_fields)]"

definition example_env :: health_env where
  "example_env =
     \<lparr>now = 1770372400 * Second,
      time_Parse = example_parse_time,
      strconv_Atoi = example_atoi,
      ParseAgentFields = example_parse_agent,
      FormatAgentDescription = example_format,
      list_fault = None,
      agent_update_fault = (\<lambda>_. None),
      show_fault = (\<lambda>_. None),
      work_update_fault = (\<lambda>_. None)\<rparr>"

definition alice_bead :: Issue where
  "alice_bead =
     \<lparr>ID = ''greenplace/polecats/alice'', Title = ''alice'',
      Description = example_format ''alice'' alice_fields, Status = ''open'',
      Priority = 0, IssueType = ''agent'', Assignee = '''', CloseReason = ''''\<rparr>"

definition alice_bead_P2 :: Issue where
  "alice_bead_P2 = alice_bead\<lparr>Priority := 2\<rparr>"

definition work_item :: "string \<Rightarrow> Issue" where
  "work_item status =
     \<lparr>ID = ''gt-123'', Title = ''Fix the parser'', Description = '''', Status = status,
      Priority = 2, IssueType = ''task'', Assignee = ''greenplace/polecats/alice'',
      CloseReason = ''''\<rparr>"


section \<open>The merge queue (package refinery: Engineer)\<close>

record MergeQueueConfig =
  Enabled :: bool
  TargetBranch :: string
  IntegrationBranches :: bool
  OnConflict :: string
  RunTests :: bool
  TestCommand :: string
  DeleteMergedBranches :: bool
  RetryFlakyTests :: int
  PollInterval :: int
  MaxConcurrent :: int

definition DefaultMergeQueueConfig :: MergeQueueConfig where
  "DefaultMergeQueueConfig =
     \<lparr>Enabled = True, TargetBranch = ''main'', IntegrationBranches = True,
      OnConflict = ''assign_back'', RunTests = True, TestCommand = '''',
      DeleteMergedBranches = True, RetryFlakyTests = 1, PollInterval = 30 * Second,
      MaxConcurrent = 1\<rparr>"

text \<open>
  Modelled from the spec: the struct \<open>beads.MRFields\<close>, declared in a file that is not
  part of the sources at hand. The record has the typed fields of a merge-request bead
  (section 3.1) that ProcessMR and TestParseMRFieldsP1 name.
\<close>

record MRFields =
  Branch :: string
  Target :: string
  SourceIssue :: string
  Worker :: string
  Rig :: string
  ConvoyID :: string
  RetryCount :: int
  LastConflictSHA :: string

record ProcessResult =
  Success :: bool
  MergeCommit :: string
  Error :: string
  Conflict :: bool
  TestsFailed :: bool

text \<open>
  The clone the Engineer works in. A branch is the list of its commits along first
  parents, newest first, each commit named by its SHA; \<open>checked_out\<close> is the branch
  HEAD points to. A merge that stopped on a conflict leaves \<open>merge_pending\<close> set until
  it is aborted. The log \<open>commands\<close> holds the argument list of every git command run,
  oldest first, and \<open>slept\<close> the durations of the \<open>time.Sleep\<close> calls. The remote is
  not part of the state: a push shows in the log only.
\<close>

record repo =
  checked_out :: string
  branches :: "string \<Rightarrow> string list"
  merge_pending :: bool
  commands :: "string list list"
  slept :: "int list"

text \<open>
  What git answers to \<open>merge origin/<branch> --no-ff -m <message>\<close>: a merge commit,
  nothing to merge, a merge stopped on a conflict, or another failure. The text of the
  last two is the error \<open>gitRun\<close> returns: what git wrote to its standard error, or
  the exit status (\<open>exit status 1\<close>) when it wrote nothing there. \<open>gitRun\<close> connects
  the standard error only, and git reports the conflicting paths of a stopped merge
  (\<open>CONFLICT (content): Merge conflict in ...\<close>) on its standard output, so the text
  of an ordinary content conflict is the exit status.
\<close>

datatype merge_outcome =
    Merged string
  | AlreadyUpToDate
  | Conflicted string
  | MergeError string

text \<open>
  What one tick of the Engineer takes from outside: whether the context is cancelled,
  the faults of its store calls, the helper \<open>beads.ParseMRFields\<close> (its code is not at
  hand), and the outcome of every command whose error the source inspects: \<open>None\<close> or
  \<open>Inr\<close> for success, otherwise the error text that \<open>gitRun\<close> returns. A successful
  pull puts \<open>Inr cs\<close>, the commits \<open>cs\<close>, on top of the checked-out branch (none when
  it was up to date). The outcome of a push depends on the number of pushes run before.
  A command that fails leaves the clone as it was, but for its entry in the log and for
  the pending merge that a conflict leaves behind.
\<close>

record refinery_env =
  ctx_done :: bool
  ready_fault :: "store_error option"
  claim_fault :: "store_error option"
  close_fault :: "store_error option"
  reopen_fault :: "store_error option"
  ParseMRFields :: "Issue \<Rightarrow> MRFields option"
  fetch_err :: "string option"
  checkout_err :: "string option"
  pull_result :: "string + string list"
  merge_result :: merge_outcome
  test_err :: "string option"
  push_err :: "nat \<Rightarrow> string option"
  revparse_err :: "string option"

text \<open>
  The git commands the Engineer runs through \<open>gitRun\<close> and \<open>gitOutput\<close>, one function
  for each argument list of the source. Each returns the clone after the command and
  the error. Their effects are git's: a checkout moves HEAD; a merge with \<open>--no-ff\<close>
  puts one merge commit on the checked-out branch, or nothing when the branch is merged
  already, and is refused on a branch without commits; \<open>merge --abort\<close> ends a pending
  merge; \<open>reset --hard HEAD~1\<close> drops the newest commit of the checked-out branch when
  it has a parent; \<open>rev-parse HEAD\<close> prints the newest commit of the checked-out branch.
  The source discards the errors of \<open>merge --abort\<close> and \<open>reset\<close>; they have no
  outcome in the environment and fail only where git has nothing to abort or to drop.
\<close>

definition logged :: "string list \<Rightarrow> repo \<Rightarrow> repo" where
  "logged args r = r\<lparr>commands := commands r @ [args]\<rparr>"

definition is_push :: "string list \<Rightarrow> bool" where
  "is_push args \<longleftrightarrow> (case args of [] \<Rightarrow> False | a # _ \<Rightarrow> a = ''push'')"

definition pushes :: "repo \<Rightarrow> nat" where
  "pushes r = length (filter is_push (commands r))"

definition git_fetch :: "refinery_env \<Rightarrow> string \<Rightarrow> repo \<Rightarrow> repo \<times> string option" where
  "git_fetch env b r = (logged [''fetch'', ''origin'', b] r, fetch_err env)"

definition git_checkout :: "refinery_env \<Rightarrow> string \<Rightarrow> repo \<Rightarrow> repo \<times> string option" where
  "git_checkout env t r =
     (case checkout_err env of
        Some e \<Rightarrow> (logged [''checkout'', t] r, Some e)
      | None \<Rightarrow> (logged [''checkout'', t] (r\<lparr>checked_out := t\<rparr>), None))"

definition git_pull :: "refinery_env \<Rightarrow> string \<Rightarrow> repo \<Rightarrow> repo \<times> string option" where
  "git_pull env t r =
     (case pull_result env of
        Inl e \<Rightarrow> (logged [''pull'', ''origin'', t] r, Some e)
      | Inr cs \<Rightarrow>
          (logged [''pull'', ''origin'', t]
             (r\<lparr>branches := (branches r)(checked_out r := cs @ branches r (checked_out r))\<rparr>),
           None))"

definition git_merge :: "refinery_env \<Rightarrow> string \<Rightarrow> string \<Rightarrow> repo \<Rightarrow> repo \<times> string option" where
  "git_merge env ref msg r =
     (let args = [''merge'', ref, ''--no-ff'', ''-m'', msg] in
      if branches r (checked_out r) = [] then
        (logged args r, Some ''fatal: Non-fast-forward commit does not make sense into an empty head'')
      else
        (case merge_result env of
           Merged c \<Rightarrow>
             (logged args
                (r\<lparr>branches := (branches r)(checked_out r := c # branches r (checked_out r))\<rparr>),
              None)
         | AlreadyUpToDate \<Rightarrow> (logged args r, None)
         | Conflicted e \<Rightarrow> (logged args (r\<lparr>merge_pending := True\<rparr>), Some e)
         | MergeError e \<Rightarrow> (logged args r, Some e)))"

definition git_merge_abort :: "repo \<Rightarrow> repo \<times> string option" where
  "git_merge_abort r =
     (if merge_pending r then (logged [''merge'', ''--abort''] (r\<lparr>merge_pending := False\<rparr>), None)
      else (logged [''merge'', ''--abort''] r,
            Some ''fatal: There is no merge to abort (MERGE_HEAD missing).''))"

definition git_reset_hard_parent :: "repo \<Rightarrow> repo \<times> string option" where
  "git_reset_hard_parent r =
     (case branches r (checked_out r) of
        c # p # older \<Rightarrow>
          (logged [''reset'', ''--hard'', ''HEAD~1'']
             (r\<lparr>branches := (branches r)(checked_out r := p # older)\<rparr>),
           None)
      | _ \<Rightarrow>
          (logged [''reset'', ''--hard'', ''HEAD~1''] r,
           Some ''fatal: ambiguous argument HEAD~1: unknown revision''))"

definition git_push :: "refinery_env \<Rightarrow> string \<Rightarrow> repo \<Rightarrow> repo \<times> string option" where
  "git_push env t r = (logged [''push'', ''origin'', t] r, push_err env (pushes r))"

definition git_rev_parse_HEAD :: "refinery_env \<Rightarrow> repo \<Rightarrow> repo \<times> (string + string)" where
  "git_rev_parse_HEAD env r =
     (case revparse_err env of
        Some e \<Rightarrow> (logged [''rev-parse'', ''HEAD''] r, Inl e)
      | None \<Rightarrow>
          (case branches r (checked_out r) of
             [] \<Rightarrow> (logged [''rev-parse'', ''HEAD''] r, Inl ''fatal: ambiguous argument HEAD'')
           | c # _ \<Rightarrow> (logged [''rev-parse'', ''HEAD''] r, Inr c)))"

definition time_Sleep :: "int \<Rightarrow> repo \<Rightarrow> repo" where
  "time_Sleep d r = r\<lparr>slept := slept r @ [d]\<rparr>"

text \<open>\<open>strings.Contains\<close> and \<open>strings.Fields\<close> of Go's library, on ASCII text.\<close>

primrec strings_Contains :: "string \<Rightarrow> string \<Rightarrow> bool" where
  "strings_Contains [] sub \<longleftrightarrow> sub = []"
| "strings_Contains (c # cs) sub \<longleftrightarrow>
     take (length sub) (c # cs) = sub \<or> strings_Contains cs sub"

definition is_space :: "char \<Rightarrow> bool" where
  "is_space c \<longleftrightarrow> c = CHR '' '' \<or> c = CHR 0x09 \<or> c = CHR 0x0A \<or> c = CHR 0x0B \<or>
     c = CHR 0x0C \<or> c = CHR 0x0D"

primrec split_fields :: "string \<Rightarrow> string \<Rightarrow> string list" where
  "split_fields cur [] = (if cur = [] then [] else [cur])"
| "split_fields cur (c # cs) =
     (if is_space c then (if cur = [] then split_fields [] cs else cur # split_fields [] cs)
      else split_fields (cur @ [c]) cs)"

definition strings_Fields :: "string \<Rightarrow> string list" where
  "strings_Fields s = split_fields [] s"

definition starts_with :: "string \<Rightarrow> string \<Rightarrow> bool" where
  "starts_with p s \<longleftrightarrow> take (length p) s = p"

text \<open>runTests: nothing is run for a command without fields.\<close>

definition runTests :: "refinery_env \<Rightarrow> string \<Rightarrow> string option" where
  "runTests env testCmd =
     (let parts = strings_Fields testCmd in
      if length parts = 0 then None else test_err env)"

text \<open>
  pushWithRetry. The loop runs for \<open>attempt\<close> from 0 while \<open>attempt <= maxRetries\<close>;
  \<open>pushLoop\<close> is the loop from a given attempt on, with the loop's variables as
  arguments. The message of the final error prints \<open>maxRetries\<close>, which is 3, and the
  last error, which is \<open>nil\<close> only if the loop body never ran.
\<close>

definition maxRetries :: nat where
  "maxRetries = 3"

function pushLoop ::
  "refinery_env \<Rightarrow> string \<Rightarrow> nat \<Rightarrow> int \<Rightarrow> string option \<Rightarrow> repo \<Rightarrow> repo \<times> string option" where
  "pushLoop env targetBranch attempt delay lastErr r =
     (if attempt \<le> maxRetries then
        (let r1 = (if attempt > 0 then time_Sleep delay r else r);
             delay1 = (if attempt > 0 then wrap64 (delay * 2) else delay)
         in
         case git_push env targetBranch r1 of
           (r2, None) \<Rightarrow> (r2, None)
         | (r2, Some err) \<Rightarrow> pushLoop env targetBranch (attempt + 1) delay1 (Some err) r2)
      else
        (r, Some (''push failed after 3 retries: ''
                   @ (case lastErr of None \<Rightarrow> ''<nil>'' | Some e \<Rightarrow> e))))"
  by pat_completeness auto

termination
  by (relation "measure (\<lambda>(env, t, attempt, d, l, r). maxRetries + 1 - attempt)") auto

declare pushLoop.simps [simp del]

definition pushWithRetry :: "refinery_env \<Rightarrow> string \<Rightarrow> repo \<Rightarrow> repo \<times> string option" where
  "pushWithRetry env targetBranch r =
     (let baseDelay = Second in pushLoop env targetBranch 0 baseDelay None r)"

definition failure :: "string \<Rightarrow> ProcessResult" where
  "failure msg =
     \<lparr>Success = False, MergeCommit = '''', Error = msg, Conflict = False, TestsFailed = False\<rparr>"

text \<open>ExecuteMerge: the clone after it and the result.\<close>

definition ExecuteMerge ::
  "refinery_env \<Rightarrow> MergeQueueConfig \<Rightarrow> Issue \<Rightarrow> MRFields \<Rightarrow> repo \<Rightarrow> repo \<times> ProcessResult" where
  "ExecuteMerge env cfg mr mrFields r =
     (let target = (if Target mrFields = '''' then TargetBranch cfg else Target mrFields);
          branch = Branch mrFields
      in
      case git_checkout env target r of
        (r1, Some err) \<Rightarrow> (r1, failure (''checkout target failed: '' @ err))
      | (r1, None) \<Rightarrow>
          (let r2 = fst (git_pull env target r1);
               mergeMsg = ''Merge '' @ branch @ '': '' @ Title mr
           in
           case git_merge env (''origin/'' @ branch) mergeMsg r2 of
             (r3, Some errStr) \<Rightarrow>
               if strings_Contains errStr ''CONFLICT'' \<or> strings_Contains errStr ''conflict''
               then
                 (fst (git_merge_abort r3),
                  \<lparr>Success = False, MergeCommit = '''', Error = ''merge conflict'',
                   Conflict = True, TestsFailed = False\<rparr>)
               else (r3, failure (''merge failed: '' @ errStr))
           | (r3, None) \<Rightarrow>
               (case (if RunTests cfg
                      then runTests env (if TestCommand cfg = '''' then ''go test ./...''
                                         else TestCommand cfg)
                      else None) of
                  Some err \<Rightarrow>
                    (fst (git_reset_hard_parent r3),
                     \<lparr>Success = False, MergeCommit = '''', Error = ''tests failed: '' @ err,
                      Conflict = False, TestsFailed = True\<rparr>)
                | None \<Rightarrow>
                    (case pushWithRetry env target r3 of
                       (r4, Some err) \<Rightarrow>
                         (fst (git_reset_hard_parent r4), failure (''push failed: '' @ err))
                     | (r4, None) \<Rightarrow>
                         (case git_rev_parse_HEAD env r4 of
                            (r5, Inl _) \<Rightarrow>
                              (r5, \<lparr>Success = True, MergeCommit = ''unknown'', Error = '''',
                                    Conflict = False, TestsFailed = False\<rparr>)
                          | (r5, Inr mergeCommit) \<Rightarrow>
                              (r5, \<lparr>Success = True, MergeCommit = mergeCommit, Error = '''',
                                    Conflict = False, TestsFailed = False\<rparr>))))))"

text \<open>ProcessMR: the two checks of the parsed fields, the fetch, then ExecuteMerge.\<close>

definition ProcessMR ::
  "refinery_env \<Rightarrow> MergeQueueConfig \<Rightarrow> Issue \<Rightarrow> repo \<Rightarrow> repo \<times> ProcessResult" where
  "ProcessMR env cfg mr r =
     (case ParseMRFields env mr of
        None \<Rightarrow> (r, failure ''no MR fields found in description'')
      | Some mrFields \<Rightarrow>
          if Branch mrFields = '''' then (r, failure ''branch field is required in merge request'')
          else
            (case git_fetch env (Branch mrFields) r of
               (r1, Some err) \<Rightarrow> (r1, failure (''fetch failed: '' @ err))
             | (r1, None) \<Rightarrow> ExecuteMerge env cfg mr mrFields r1))"

text \<open>handleFailure: reopen the merge request; a failure of the update is only printed.\<close>

definition handleFailure :: "refinery_env \<Rightarrow> Issue \<Rightarrow> ProcessResult \<Rightarrow> store \<Rightarrow> store" where
  "handleFailure env mr result st =
     (case beads_Update (reopen_fault env) st (ID mr)
             \<lparr>upd_Status = Some ''open'', upd_Assignee = None, upd_Description = None\<rparr> of
        Inl _ \<Rightarrow> st
      | Inr st' \<Rightarrow> st')"

text \<open>
  Modelled from the spec: the adapter's method \<open>ReadyWithType\<close>, whose code is not at
  hand. Section 4.1: \<open>ready(type?)\<close> gives the issues with status open and no open
  blockers, sorted by priority ascending, then age ascending. The store modelled here
  holds no dependency relations, so no issue has a blocker; the sort is stable and the
  store is in the order of creation.
\<close>

definition beads_ReadyWithType ::
  "store_error option \<Rightarrow> store \<Rightarrow> string \<Rightarrow> store_error + Issue list" where
  "beads_ReadyWithType fault st t =
     (case fault of
        Some e \<Rightarrow> Inl e
      | None \<Rightarrow> Inr (sort_key Priority (filter (\<lambda>x. IssueType x = t \<and> Status x = ''open'') st)))"

datatype engineer_error =
    QueryingReady store_error
  | ClaimingMR string store_error

text \<open>processOnce: the clone and the store after the tick, and the error returned.\<close>

definition processOnce ::
  "refinery_env \<Rightarrow> MergeQueueConfig \<Rightarrow> repo \<Rightarrow> store \<Rightarrow> repo \<times> store \<times> engineer_error option" where
  "processOnce env cfg r st =
     (if ctx_done env then (r, st, None)
      else
        (case beads_ReadyWithType (ready_fault env) st ''merge-request'' of
           Inl e \<Rightarrow> (r, st, Some (QueryingReady e))
         | Inr readyMRs \<Rightarrow>
             if length readyMRs = 0 then (r, st, None)
             else
               (let mr = hd readyMRs in
                case beads_Update (claim_fault env) st (ID mr)
                       \<lparr>upd_Status = Some ''in_progress'', upd_Assignee = None,
                        upd_Description = None\<rparr> of
                  Inl e \<Rightarrow> (r, st, Some (ClaimingMR (ID mr) e))
                | Inr st1 \<Rightarrow>
                    (case ProcessMR env cfg mr r of
                       (r1, result) \<Rightarrow>
                         if Success result then
                           (let reason = ''merged: '' @ MergeCommit result in
                            case beads_CloseWithReason (close_fault env) st1 reason (ID mr) of
                              Inl _ \<Rightarrow> (r1, st1, None)
                            | Inr st2 \<Rightarrow> (r1, st2, None))
                         else (r1, handleFailure env mr result st1, None)))))"


text \<open>
  Two notions for stating what a tick leaves behind: the target branch ExecuteMerge
  works on, and the commits the pull of this tick put on top of it.
\<close>

definition target_of :: "MergeQueueConfig \<Rightarrow> MRFields \<Rightarrow> string" where
  "target_of cfg f = (if Target f = '''' then TargetBranch cfg else Target f)"

definition pulled :: "refinery_env \<Rightarrow> string list" where
  "pulled env = (case pull_result env of Inl _ \<Rightarrow> [] | Inr cs \<Rightarrow> cs)"

text \<open>
  A concrete rig, after scenario 3 of section 8.4: the merge request gt-mr-1 asks to
  merge polecat/alice-x into main, whose newest commits are c1 and c0. The two other
  issues are the inputs of TestProcessMR_NoMRFields and TestProcessMR_MissingBranch.
  In \<open>clean_env\<close> every command succeeds and the merge creates the commit 9fceb02.
\<close>

definition mr_fields :: "string \<Rightarrow> string \<Rightarrow> MRFields" where
  "mr_fields b w =
     \<lparr>Branch = b, Target = ''main'', SourceIssue = '''', Worker = w, Rig = '''',
      ConvoyID = '''', RetryCount = 0, LastConflictSHA = ''''\<rparr>"

definition example_parse_mr :: "Issue \<Rightarrow> MRFields option" where
  "example_parse_mr x =
     map_of [(''branch: polecat/alice-x'' @ [CHR 0x0A] @ ''target: main'',
                mr_fields ''polecat/alice-x'' ''''),
             (''target: main'' @ [CHR 0x0A] @ ''worker: TestWorker'',
                mr_fields '''' ''TestWorker'')]
       (Description x)"

definition mr_issue :: "string \<Rightarrow> Issue" where
  "mr_issue d =
     \<lparr>ID = ''gt-mr-1'', Title = ''Test MR'', Description = d, Status = ''open'',
      Priority = 2, IssueType = ''merge-request'', Assignee = '''', CloseReason = ''''\<rparr>"

definition good_mr :: Issue where
  "good_mr = mr_issue (''branch: polecat/alice-x'' @ [CHR 0x0A] @ ''target: main'')"

definition no_fields_mr :: Issue where
  "no_fields_mr = mr_issue ''This issue has no MR fields''"

definition no_branch_mr :: Issue where
  "no_branch_mr = mr_issue (''target: main'' @ [CHR 0x0A] @ ''worker: TestWorker'')"

definition example_repo :: repo where
  "example_repo =
     \<lparr>checked_out = ''main'', branches = (\<lambda>_. [])(''main'' := [''c1'', ''c0'']),
      merge_pending = False, commands = [], slept = []\<rparr>"

definition clean_env :: refinery_env where
  "clean_env =
     \<lparr>ctx_done = False, ready_fault = None, claim_fault = None, close_fault = None,
      reopen_fault = None, ParseMRFields = example_parse_mr, fetch_err = None,
      checkout_err = None, pull_result = Inr [], merge_result = Merged ''9fceb02'',
      test_err = None, push_err = (\<lambda>_. None), revparse_err = None\<rparr>"

text \<open>
  Variations of the clean environment. In \<open>unknown_head_env\<close> resolving HEAD fails
  and in \<open>close_fails_env\<close> the store refuses the closing call. In \<open>conflict_env\<close>
  the merge stops on a content conflict, which \<open>gitRun\<close> sees as the exit status. In
  \<open>merged_already_env\<close> the branch of the request is merged into main already, so the
  merge has nothing to do, and the tests fail. In \<open>push_rejected_env\<close> the remote
  rejects every push, in \<open>fourth_push_env\<close> it accepts the fourth, and in
  \<open>second_push_env\<close> the second.
\<close>

definition unknown_head_env :: refinery_env where
  "unknown_head_env = clean_env\<lparr>revparse_err := Some ''exit status 128''\<rparr>"

definition close_fails_env :: refinery_env where
  "close_fails_env = clean_env\<lparr>close_fault := Some TransportError\<rparr>"

definition conflict_env :: refinery_env where
  "conflict_env = clean_env\<lparr>merge_result := Conflicted ''exit status 1''\<rparr>"

definition merged_already_env :: refinery_env where
  "merged_already_env =
     clean_env\<lparr>merge_result := AlreadyUpToDate, test_err := Some ''exit status 1''\<rparr>"

definition push_rejected_env :: refinery_env where
  "push_rejected_env = clean_env\<lparr>push_err := (\<lambda>_. Some ''remote rejected'')\<rparr>"

definition fourth_push_env :: refinery_env where
  "fourth_push_env =
     clean_env\<lparr>push_err := (\<lambda>n. if n < 3 then Some ''remote rejected'' else None)\<rparr>"

definition second_push_env :: refinery_env where
  "second_push_env =
     clean_env\<lparr>push_err := (\<lambda>n. if n < 1 then Some ''remote rejected'' else None)\<rparr>"


section \<open>Projection sync daemon: persisted state (package projection)\<close>

text \<open>
  File paths in the clean form Go's \<open>path/filepath\<close> works with: the empty string, or
  a rooted or relative sequence of components (\<open>FPath True []\<close> is the root,
  \<open>FPath False []\<close> is the current directory). \<open>Base\<close> gives the last component,
  \<open>Dir\<close> drops it and never gives the empty string.
\<close>

datatype fpath = EmptyPath | FPath bool "string list"

fun filepath_Base :: "fpath \<Rightarrow> string" where
  "filepath_Base EmptyPath = ''.''"
| "filepath_Base (FPath rooted []) = (if rooted then ''/'' else ''.'')"
| "filepath_Base (FPath rooted (c # cs)) = last (c # cs)"

fun filepath_Dir :: "fpath \<Rightarrow> fpath" where
  "filepath_Dir EmptyPath = FPath False []"
| "filepath_Dir (FPath rooted cs) = FPath rooted (butlast cs)"

fun filepath_Join :: "fpath \<Rightarrow> string \<Rightarrow> fpath" where
  "filepath_Join EmptyPath name = FPath False [name]"
| "filepath_Join (FPath rooted cs) name = FPath rooted (cs @ [name])"

text \<open>
  The struct \<open>State\<close>. Its declaration in the sources at hand has the first six
  fields.

  Modelled from the spec: the last four fields, which the declaration at hand lacks.
  \<open>New\<close> reads them from a loaded state (\<open>LastEventID\<close>, \<open>LastTaskUpdate\<close>,
  \<open>LastCommentSync\<close>, \<open>IncrementalSynced\<close>), and section 6.6 lists the keys
  last_event_id, last_task_update and incremental_enabled of the state file beside the
  six. Instants are nanoseconds since the Unix epoch.
\<close>

record State =
  Running :: bool
  PID :: int
  StartedAt :: int
  LastSync :: int
  SyncCount :: int
  ErrorCount :: int
  LastEventID :: int
  LastTaskUpdate :: int
  LastCommentSync :: int
  IncrementalSynced :: bool

text \<open>Go's zero value \<open>State{}\<close>.\<close>

definition zero_State :: State where
  "zero_State =
     \<lparr>Running = False, PID = 0, StartedAt = 0, LastSync = 0, SyncCount = 0, ErrorCount = 0,
      LastEventID = 0, LastTaskUpdate = 0, LastCommentSync = 0, IncrementalSynced = False\<rparr>"

text \<open>
  The files of the daemon directory. A file written by \<open>json.Marshal\<close> of a \<open>State\<close>
  holds every field of that value, and \<open>json.Unmarshal\<close> into a fresh \<open>State\<close> gives
  the value back; any other content does not parse.
\<close>

datatype file_content = StateJSON State | OtherContent

type_synonym filesystem = "fpath \<Rightarrow> file_content option"

datatype io_error = ReadFailed | ParsingStateFile | MkdirFailed | WriteFailed

text \<open>
  What the two functions take from the operating system: whether reading, creating the
  directory or writing fails, the process id and the clock.
\<close>

record os_env =
  read_fault :: bool
  mkdir_fault :: bool
  write_fault :: bool
  getpid :: int
  clock :: int

definition daemonStateFile :: "fpath \<Rightarrow> fpath" where
  "daemonStateFile townRoot =
     filepath_Join (filepath_Join townRoot ''daemon'') ''projection-sync.state''"

definition LoadState :: "os_env \<Rightarrow> filesystem \<Rightarrow> fpath \<Rightarrow> io_error + State" where
  "LoadState env fs townRoot =
     (if read_fault env then Inl ReadFailed
      else
        (case fs (daemonStateFile townRoot) of
           None \<Rightarrow> Inr zero_State
         | Some OtherContent \<Rightarrow> Inl ParsingStateFile
         | Some (StateJSON state) \<Rightarrow> Inr state))"

text \<open>
  The loop that \<open>New\<close> and \<open>SaveState\<close> both run to find the town root: it climbs from
  the cache directory until the last component is "cache". \<open>Dir\<close> never yields the
  empty string, so the loop ends only at such a component: on a path without one it
  runs forever, which is the value \<open>None\<close> here.
\<close>

partial_function (option) townRootLoop :: "fpath \<Rightarrow> fpath option" where
  "townRootLoop townRoot =
     (if townRoot \<noteq> EmptyPath \<and> filepath_Base townRoot \<noteq> ''cache''
      then townRootLoop (filepath_Dir townRoot)
      else Some townRoot)"

text \<open>
  The fields of \<open>SyncDaemon\<close> that hold data (the logger, the context and the mutex are
  left out), and \<open>Config\<close> without its logger. The poll interval of \<open>Config\<close> is
  \<open>SyncPollInterval\<close> here.
\<close>

record SyncDaemon =
  beadsDBPath :: string
  projDBPath :: string
  cacheDir :: fpath
  pollInterval :: int
  lastSync :: int
  syncCount :: int
  errorCount :: int
  lastEventID :: int
  lastTaskUpdate :: int
  lastCommentSync :: int
  incrementalEnabled :: bool

record SyncConfig =
  BeadsDBPath :: string
  ProjDBPath :: string
  CacheDir :: fpath
  SyncPollInterval :: int

text \<open>New: \<open>None\<close> when the loop for the town root does not end.\<close>

definition New :: "SyncConfig \<Rightarrow> os_env \<Rightarrow> filesystem \<Rightarrow> SyncDaemon option" where
  "New cfg env fs =
     (let interval = (if SyncPollInterval cfg = 0 then 30 * Second else SyncPollInterval cfg);
          daemon =
            \<lparr>beadsDBPath = BeadsDBPath cfg, projDBPath = ProjDBPath cfg,
             cacheDir = CacheDir cfg, pollInterval = interval, lastSync = 0, syncCount = 0,
             errorCount = 0, lastEventID = 0, lastTaskUpdate = 0, lastCommentSync = 0,
             incrementalEnabled = False\<rparr>
      in
      case townRootLoop (CacheDir cfg) of
        None \<Rightarrow> None
      | Some p \<Rightarrow>
          (let townRoot = filepath_Dir p in
           case LoadState env fs townRoot of
             Inr state \<Rightarrow>
               Some (daemon\<lparr>lastEventID := LastEventID state,
                             lastTaskUpdate := LastTaskUpdate state,
                             lastCommentSync := LastCommentSync state,
                             incrementalEnabled := IncrementalSynced state\<rparr>)
           | Inl _ \<Rightarrow> Some daemon))"

text \<open>
  SaveState: the file system after it and the error; \<open>None\<close> when the loop does not
  end. The composite literal names six fields; the others keep Go's zero values.
\<close>

definition SaveState ::
  "SyncDaemon \<Rightarrow> os_env \<Rightarrow> filesystem \<Rightarrow> (filesystem \<times> io_error option) option" where
  "SaveState d env fs =
     (case townRootLoop (cacheDir d) of
        None \<Rightarrow> None
      | Some p \<Rightarrow>
          (let townRoot = filepath_Dir p in
           if mkdir_fault env then Some (fs, Some MkdirFailed)
           else
             (let state =
                    \<lparr>Running = True, PID = getpid env, StartedAt = clock env,
                     LastSync = lastSync d, SyncCount = syncCount d,
                     ErrorCount = errorCount d, LastEventID = 0, LastTaskUpdate = 0,
                     LastCommentSync = 0, IncrementalSynced = False\<rparr>
              in
              if write_fault env then Some (fs, Some WriteFailed)
              else Some (fs(daemonStateFile townRoot \<mapsto> StateJSON state), None))))"

text \<open>
  The setting of TestIncrementalStatePreservation: a configuration whose cache
  directory is a directory "cache", an empty daemon directory, and a daemon whose
  cursors are set to 12345 and 67890 with incremental sync enabled.
\<close>

definition test_config :: SyncConfig where
  "test_config =
     \<lparr>BeadsDBPath = ''/tmp/t/beads_test.db'', ProjDBPath = ''/tmp/t/proj_test.db'',
      CacheDir = FPath True [''tmp'', ''t'', ''cache''], SyncPollInterval = Second\<rparr>"

definition calm_os :: os_env where
  "calm_os =
     \<lparr>read_fault = False, mkdir_fault = False, write_fault = False, getpid = 4711,
      clock = 1770372400 * Second\<rparr>"

definition no_files :: filesystem where
  "no_files = (\<lambda>_. None)"

definition test_daemon :: "SyncDaemon option" where
  "test_daemon =
     map_option (\<lambda>d. d\<lparr>lastEventID := 12345, lastTaskUpdate := 67890,
                         incrementalEnabled := True\<rparr>)
       (New test_config calm_os no_files)"

text \<open>The daemon that \<open>New\<close> builds after \<open>SaveState\<close> of a given daemon succeeded.\<close>

definition saved_then_loaded :: "SyncDaemon \<Rightarrow> SyncDaemon option" where
  "saved_then_loaded d =
     (case SaveState d calm_os no_files of
        Some (fs, None) \<Rightarrow> New test_config calm_os fs
      | _ \<Rightarrow> None)"


section \<open>Built-in molecules (package beads: SeedBuiltinMolecules)\<close>

text \<open>
  BuiltinMolecule; its fields \<open>ID\<close>, \<open>Title\<close> and \<open>Description\<close> are prefixed because
  the record \<open>Issue\<close> has the plain names. The descriptions are Go raw strings; they
  are written here line by line and joined with newlines.
\<close>

record BuiltinMolecule =
  MolID :: string
  MolTitle :: string
  MolDescription :: string

fun joined_lines :: "string list \<Rightarrow> string" where
  "joined_lines [] = []"
| "joined_lines [l] = l"
| "joined_lines (l # ls) = l @ CHR 0x0A # joined_lines ls"

definition EngineerInBoxMolecule :: BuiltinMolecule where
  "EngineerInBoxMolecule =
     \<lparr>MolID = ''mol-engineer-in-box'', MolTitle = ''Engineer in a Box'',
      MolDescription = joined_lines
       [''Full workflow from design to merge.'',
        '''',
        ''## Step: design'',
        ''Think carefully about architecture. Consider:'',
        ''- Existing patterns in the codebase'',
        ''- Trade-offs between approaches'',
        ''- Testability and maintainability'',
        '''',
        ''Write a brief design summary before proceeding.'',
        '''',
        ''## Step: implement'',
        ''Write the code. Follow codebase conventions.'',
        ''Needs: design'',
        '''',
        ''## Step: review'',
        ''Self-review the changes. Look for:'',
        ''- Bugs and edge cases'',
        ''- Style issues'',
        ''- Missing error handling'',
        ''Needs: implement'',
        '''',
        ''## Step: test'',
        ''Write and run tests. Cover happy path and edge cases.'',
        ''Fix any failures before proceeding.'',
        ''Needs: implement'',
        '''',
        ''## Step: submit'',
        ''Submit for merge via refinery.'',
        ''Needs: review, test'']\<rparr>"

definition QuickFixMolecule :: BuiltinMolecule where
  "QuickFixMolecule =
     \<lparr>MolID = ''mol-quick-fix'', MolTitle = ''Quick Fix'',
      MolDescription = joined_lines
       [''Fast path for small changes.'',
        '''',
        ''## Step: implement'',
        ''Make the fix. Keep it focused.'',
        '''',
        ''## Step: test'',
        ''Run relevant tests. Fix any regressions.'',
        ''Needs: implement'',
        '''',
        ''## Step: submit'',
        ''Submit for merge.'',
        ''Needs: test'']\<rparr>"

definition ResearchMolecule :: BuiltinMolecule where
  "ResearchMolecule =
     \<lparr>MolID = ''mol-research'', MolTitle = ''Research'',
      MolDescription = joined_lines
       [''Investigation workflow.'',
        '''',
        ''## Step: investigate'',
        ''Explore the question. Search code, read docs,'',
        ''understand context. Take notes.'',
        '''',
        ''## Step: document'',
        ''Write up findings. Include:'',
        ''- What you learned'',
        ''- Recommendations'',
        ''- Open questions'',
        ''Needs: investigate'']\<rparr>"

definition InstallGoBinaryMolecule :: BuiltinMolecule where
  "InstallGoBinaryMolecule =
     \<lparr>MolID = ''mol-install-go-binary'', MolTitle = ''Install Go Binary'',
      MolDescription = joined_lines
       [''Single step to rebuild and install the gt binary after code changes.'',
        '''',
        ''## Step: install'',
        ''Build and install the gt binary locally.'',
        '''',
        ''Run from the rig directory:'',
        [CHR 0x60, CHR 0x60, CHR 0x60],
        ''go build -o gt ./cmd/gt'',
        ''go install ./cmd/gt'',
        [CHR 0x60, CHR 0x60, CHR 0x60],
        '''',
        ''Verify the installed binary is updated:'',
        [CHR 0x60, CHR 0x60, CHR 0x60],
        ''which gt'',
        ''gt --version  # if version command exists'',
        [CHR 0x60, CHR 0x60, CHR 0x60]]\<rparr>"

definition BuiltinMolecules :: "BuiltinMolecule list" where
  "BuiltinMolecules =
     [EngineerInBoxMolecule, QuickFixMolecule, ResearchMolecule, InstallGoBinaryMolecule]"

text \<open>
  What SeedBuiltinMolecules takes from outside: the fault of its \<open>List\<close> call, the
  fault of the \<open>Create\<close> call for a molecule (by title), and the id the store assigns
  to an issue created in a given store.
\<close>

record seed_env =
  seed_list_fault :: "store_error option"
  create_fault :: "string \<Rightarrow> store_error option"
  assign_id :: "store \<Rightarrow> string"

text \<open>
  The second loop of SeedBuiltinMolecules, over the molecules still to seed: the store
  after it, the number created and the error. \<open>existingTitles\<close> is the Go map built
  by the first loop; it is not extended while molecules are created.
\<close>

fun seedLoop ::
  "seed_env \<Rightarrow> (string \<times> bool) list \<Rightarrow> BuiltinMolecule list \<Rightarrow> store \<Rightarrow> nat \<Rightarrow>
   store \<times> nat \<times> store_error option" where
  "seedLoop env existingTitles [] st created = (st, created, None)"
| "seedLoop env existingTitles (mol # molecules) st created =
     (if lookup_bool existingTitles (MolTitle mol)
      then seedLoop env existingTitles molecules st created
      else
        (case beads_Create (create_fault env (MolTitle mol)) (assign_id env st) st
                \<lparr>new_Title = MolTitle mol, new_Type = ''molecule'', new_Priority = 2,
                 new_Description = MolDescription mol\<rparr> of
           Inl e \<Rightarrow> (st, created, Some e)
         | Inr (_, st') \<Rightarrow> seedLoop env existingTitles molecules st' (created + 1)))"

definition SeedBuiltinMolecules :: "seed_env \<Rightarrow> store \<Rightarrow> store \<times> nat \<times> store_error option" where
  "SeedBuiltinMolecules env st =
     (let molecules = BuiltinMolecules in
      case beads_List (seed_list_fault env) st
             \<lparr>list_Type = ''molecule'', list_Status = '''', list_Priority = - 1\<rparr> of
        Inl e \<Rightarrow> (st, 0, Some e)
      | Inr existing \<Rightarrow>
          (let existingTitles = map (\<lambda>issue. (Title issue, True)) existing
           in seedLoop env existingTitles molecules st 0))"

text \<open>The titles of the molecules in a store, and a store that never fails.\<close>

definition molecule_titles :: "store \<Rightarrow> string set" where
  "molecule_titles st = set (map Title (filter (\<lambda>x. IssueType x = ''molecule'') st))"

definition builtin_titles :: "string set" where
  "builtin_titles = set (map MolTitle BuiltinMolecules)"

definition calm_seed_env :: seed_env where
  "calm_seed_env =
     \<lparr>seed_list_fault = None, create_fault = (\<lambda>_. None),
      assign_id = (\<lambda>st. ''gt-mol-'' @ replicate (length st) CHR ''x'')\<rparr>"


section \<open>Properties of the validators\<close>

lemma ValidateConvoyStage_None_iff:
  "ValidateConvoyStage s = None \<longleftrightarrow>
     s = ''planning'' \<or> s = ''execution'' \<or> s = ''review'' \<or> s = ''complete''"
  by (simp add: ValidateConvoyStage_def lookup_bool_def validStages_def
      ConvoyStagePlanning_def ConvoyStageExecution_def ConvoyStageReview_def
      ConvoyStageComplete_def)

lemma strictly_forward_iff:
  "strictly_forward c n \<longleftrightarrow>
     (c = ''planning'' \<and> (n = ''execution'' \<or> n = ''review'' \<or> n = ''complete'')) \<or>
     (c = ''execution'' \<and> (n = ''review'' \<or> n = ''complete'')) \<or>
     (c = ''review'' \<and> n = ''complete'')"
proof
  assume "strictly_forward c n"
  then obtain i j where ij: "i < j" "j < 4"
    and c: "convoy_stage_sequence ! i = c" and n: "convoy_stage_sequence ! j = n"
    by (auto simp: strictly_forward_def convoy_stage_sequence_def)
  from ij have "(i = 0 \<and> j = 1) \<or> (i = 0 \<and> j = 2) \<or> (i = 0 \<and> j = 3) \<or>
      (i = 1 \<and> j = 2) \<or> (i = 1 \<and> j = 3) \<or> (i = 2 \<and> j = 3)"
    by arith
  with c n show "(c = ''planning'' \<and> (n = ''execution'' \<or> n = ''review'' \<or> n = ''complete'')) \<or>
     (c = ''execution'' \<and> (n = ''review'' \<or> n = ''complete'')) \<or>
     (c = ''review'' \<and> n = ''complete'')"
    by (elim disjE conjE) (simp_all add: convoy_stage_sequence_def)
next
  assume "(c = ''planning'' \<and> (n = ''execution'' \<or> n = ''review'' \<or> n = ''complete'')) \<or>
     (c = ''execution'' \<and> (n = ''review'' \<or> n = ''complete'')) \<or>
     (c = ''review'' \<and> n = ''complete'')"
  then show "strictly_forward c n"
    unfolding strictly_forward_def convoy_stage_sequence_def
    apply (elim disjE conjE)
         apply (rule exI [of _ 0], rule exI [of _ 1], simp)
        apply (rule exI [of _ 0], rule exI [of _ 2], simp)
       apply (rule exI [of _ 0], rule exI [of _ 3], simp)
      apply (rule exI [of _ 1], rule exI [of _ 2], simp)
     apply (rule exI [of _ 1], rule exI [of _ 3], simp)
    apply (rule exI [of _ 2], rule exI [of _ 3], simp)
    done
qed

lemma transition_None_iff:
  "ValidateConvoyStageTransition c n = None \<longleftrightarrow>
     (c = ''planning'' \<and> (n = ''execution'' \<or> n = ''review'' \<or> n = ''complete'')) \<or>
     (c = ''execution'' \<and> (n = ''review'' \<or> n = ''complete'')) \<or>
     (c = ''review'' \<and> n = ''complete'')"
proof (cases "ValidateConvoyStage c = None \<and> ValidateConvoyStage n = None")
  case False
  then show ?thesis
    by (auto simp: ValidateConvoyStageTransition_def ValidateConvoyStage_None_iff
        split: option.splits)
next
  case True
  then have c: "c = ''planning'' \<or> c = ''execution'' \<or> c = ''review'' \<or> c = ''complete''"
    and n: "n = ''planning'' \<or> n = ''execution'' \<or> n = ''review'' \<or> n = ''complete''"
    by (simp_all add: ValidateConvoyStage_None_iff)
  from True have eq: "ValidateConvoyStageTransition c n =
      (if lookup_int stageOrder n \<le> lookup_int stageOrder c
       then Some (InvalidStageTransition c n) else None)"
    by (simp add: ValidateConvoyStageTransition_def)
  from c n show ?thesis
    unfolding eq
    by (elim disjE)
      (simp_all add: lookup_int_def stageOrder_def ConvoyStagePlanning_def
        ConvoyStageExecution_def ConvoyStageReview_def ConvoyStageComplete_def)
qed

text \<open>
  C7. Heartbeat-timeout validation accepts a timeout t (in seconds) if and only if
  60 <= t <= 3600, and returns an error otherwise. The bounds are the constants
  MinHeartbeatTimeout and MaxHeartbeatTimeout. In particular 59 and 3601 are rejected
  and 60 and 3600 are accepted.
\<close>

theorem heartbeat_timeout_accept_iff:
  "(ValidateHeartbeatTimeout t = None \<longleftrightarrow> 60 \<le> t \<and> t \<le> 3600) \<and>
   (ValidateHeartbeatTimeout t = None \<longleftrightarrow> MinHeartbeatTimeout \<le> t \<and> t \<le> MaxHeartbeatTimeout) \<and>
   ValidateHeartbeatTimeout 59 = Some (TimeoutTooShort 59 60) \<and>
   ValidateHeartbeatTimeout 60 = None \<and>
   ValidateHeartbeatTimeout 3600 = None \<and>
   ValidateHeartbeatTimeout 3601 = Some (TimeoutTooLong 3601 3600)"
  by (simp add: ValidateHeartbeatTimeout_def MinHeartbeatTimeout_def MaxHeartbeatTimeout_def)

text \<open>
  C8. Convoy stage transition validation accepts exactly the strictly forward moves in
  the order planning, execution, review, complete (skipping ahead included), so every
  backward and every same-stage move is rejected. The variant with reopening accepts,
  in addition, only the pair complete to planning, and on every other pair it returns
  what the plain validator returns.
\<close>

theorem convoy_stage_transition_forward_only:
  "(ValidateConvoyStageTransition c n = None \<longleftrightarrow> strictly_forward c n) \<and>
   (ValidateConvoyStageTransitionWithReopening c n = None \<longleftrightarrow>
      (c = ''complete'' \<and> n = ''planning'') \<or> strictly_forward c n) \<and>
   ValidateConvoyStageTransitionWithReopening c n =
     (if c = ''complete'' \<and> n = ''planning'' then None
      else ValidateConvoyStageTransition c n)"
  by (auto simp: transition_None_iff strictly_forward_iff
      ValidateConvoyStageTransitionWithReopening_def ConvoyStageComplete_def
      ConvoyStagePlanning_def)


section \<open>Properties of the health check\<close>

lemma wrap64_id: "- (2 ^ 63) \<le> x \<Longrightarrow> x < 2 ^ 63 \<Longrightarrow> wrap64 x = x"
  by (simp add: wrap64_def)

lemma time_Sub_cases:
  "time_Sub t u =
     (if t - u < - (2 ^ 63) then - (2 ^ 63)
      else if t - u > 2 ^ 63 - 1 then 2 ^ 63 - 1 else t - u)"
  by (simp add: time_Sub_def minDuration_def maxDuration_def Let_def)

text \<open>
  Where twice the timeout fits a duration, neither product wraps, and the saturation of
  \<open>Time.Sub\<close> does not change the class: the class is the one of the true age.
\<close>

lemma newHealth_of_in_range:
  assumes "0 < T" and "2 * T * Second < 2 ^ 63"
  shows "newHealth_of (time_Sub n l) (wrap64 (T * Second)) =
     (if n - l < T * Second then ''healthy''
      else if n - l < 2 * T * Second then ''stale'' else ''dead'')"
proof -
  have S: "Second = 1000000000" by (simp add: Second_def)
  from assms have w1: "wrap64 (T * Second) = T * Second"
    by (intro wrap64_id) (simp_all add: S)
  from assms have w2: "wrap64 (2 * (T * Second)) = 2 * T * Second"
    using wrap64_id [of "2 * T * Second"] by (simp add: S)
  from assms show ?thesis
    unfolding newHealth_of_def w1 w2 time_Sub_cases HealthHealthy_def HealthStale_def HealthDead_def
    by (auto simp: S)
qed

text \<open>
  Every path of the loop body behind the two parsers appends a row for the agent, and
  the row's current health is the computed class, whether or not the store calls
  succeed. The rows of a pass are never dropped, so the pass returns a row for every
  agent of the list whose two fields parse.
\<close>

lemma checkAgent_row:
  assumes "ParseAgentFields env (Description agent) = Some f"
    and "LastHeartbeat f \<noteq> ''''" and "HeartbeatTimeout f \<noteq> ''''"
    and "time_Parse env (LastHeartbeat f) = Some l"
    and "strconv_Atoi env (HeartbeatTimeout f) = Some T"
  shows "\<exists>r. snd (checkAgent env agent st) = Some r \<and> AgentID r = ID agent \<and>
     CurrentHealth r = newHealth_of (time_Sub (now env) l) (wrap64 (T * Second))"
  using assms unfolding checkAgent_def
  by (simp add: Let_def split: sum.splits prod.splits option.splits)

lemma checkAgents_grows:
  "checkAgents env agents st rs = (st', rs') \<Longrightarrow> set rs \<subseteq> set rs'"
proof (induction agents arbitrary: st rs)
  case Nil
  then show ?case by simp
next
  case (Cons a agents)
  obtain st1 row where step: "checkAgent env a st = (st1, row)"
    by (cases "checkAgent env a st")
  show ?case
  proof (cases row)
    case None
    with Cons.prems step have "checkAgents env agents st1 rs = (st', rs')" by simp
    from Cons.IH [OF this] show ?thesis .
  next
    case (Some r)
    with Cons.prems step have "checkAgents env agents st1 (rs @ [r]) = (st', rs')" by simp
    from Cons.IH [OF this] show ?thesis by simp
  qed
qed

lemma checkAgents_rows:
  assumes "checkAgents env agents st rs = (st', rs')" and "agent \<in> set agents"
    and "ParseAgentFields env (Description agent) = Some f"
    and "LastHeartbeat f \<noteq> ''''" and "HeartbeatTimeout f \<noteq> ''''"
    and "time_Parse env (LastHeartbeat f) = Some l"
    and "strconv_Atoi env (HeartbeatTimeout f) = Some T"
  shows "\<exists>r\<in>set rs'. AgentID r = ID agent \<and>
     CurrentHealth r = newHealth_of (time_Sub (now env) l) (wrap64 (T * Second))"
  using assms(1,2)
proof (induction agents arbitrary: st rs)
  case Nil
  then show ?case by simp
next
  case (Cons a agents)
  obtain st1 row where step: "checkAgent env a st = (st1, row)"
    by (cases "checkAgent env a st")
  show ?case
  proof (cases "a = agent")
    case True
    from checkAgent_row [OF assms(3-7), of st] step True
    obtain r where r: "row = Some r" "AgentID r = ID agent"
      "CurrentHealth r = newHealth_of (time_Sub (now env) l) (wrap64 (T * Second))"
      by auto
    with Cons.prems(1) step have "checkAgents env agents st1 (rs @ [r]) = (st', rs')" by simp
    from checkAgents_grows [OF this] have "r \<in> set rs'" by auto
    with r show ?thesis by blast
  next
    case False
    with Cons.prems(2) have mem: "agent \<in> set agents" by simp
    show ?thesis
    proof (cases row)
      case None
      with Cons.prems(1) step have "checkAgents env agents st1 rs = (st', rs')" by simp
      from Cons.IH [OF this mem] show ?thesis .
    next
      case (Some r)
      with Cons.prems(1) step have "checkAgents env agents st1 (rs @ [r]) = (st', rs')" by simp
      from Cons.IH [OF this mem] show ?thesis .
    qed
  qed
qed

lemmas example_defs =
  example_env_def example_parse_agent_def example_parse_time_def example_atoi_def
  alice_bead_def alice_fields_def example_format_def

text \<open>
  For the agent beads that the query of the pass returns, the classification is the one
  of section 4.5. Let an agent bead of the list have a last_heartbeat that parses to
  the instant l and a heartbeat_timeout that parses to T seconds, with 0 < T and twice
  T seconds below 2^63 nanoseconds (every validated timeout, 60 to 3600, is in this
  range). Then the pass returns a row for the agent whose current health is a function
  of age = now - l alone: healthy when age < T, stale when T <= age < 2T, dead when
  2T <= age. At exactly age = T it is stale and at exactly age = 2T it is dead.
\<close>

lemma listed_agent_classified:
  assumes listed: "beads_List (list_fault env) st
        \<lparr>list_Type = ''agent'', list_Status = ''open'', list_Priority = 0\<rparr> = Inr agents"
    and mem: "agent \<in> set agents"
    and parsed: "ParseAgentFields env (Description agent) = Some f"
    and tracked: "LastHeartbeat f \<noteq> ''''" "HeartbeatTimeout f \<noteq> ''''"
    and beat: "time_Parse env (LastHeartbeat f) = Some l"
    and timeout: "strconv_Atoi env (HeartbeatTimeout f) = Some T"
    and range: "0 < T" "2 * T * Second < 2 ^ 63"
  shows "\<exists>st' results. CheckWorkerHealth env st = (st', Inr results) \<and>
     (\<exists>r\<in>set results. AgentID r = ID agent \<and>
        (now env - l < T * Second \<longrightarrow> CurrentHealth r = ''healthy'') \<and>
        (T * Second \<le> now env - l \<and> now env - l < 2 * T * Second \<longrightarrow>
           CurrentHealth r = ''stale'') \<and>
        (2 * T * Second \<le> now env - l \<longrightarrow> CurrentHealth r = ''dead'') \<and>
        (now env - l = T * Second \<longrightarrow> CurrentHealth r = ''stale'') \<and>
        (now env - l = 2 * T * Second \<longrightarrow> CurrentHealth r = ''dead''))"
proof -
  obtain st' results where loop: "checkAgents env agents st [] = (st', results)"
    by (cases "checkAgents env agents st []")
  with listed have run: "CheckWorkerHealth env st = (st', Inr results)"
    by (simp add: CheckWorkerHealth_def)
  from checkAgents_rows [OF loop mem parsed tracked beat timeout]
  obtain r where r: "r \<in> set results" "AgentID r = ID agent"
    and h: "CurrentHealth r = newHealth_of (time_Sub (now env) l) (wrap64 (T * Second))"
    by blast
  have pos: "0 < T * Second" "0 < Second * T" using range(1) by (simp_all add: Second_def)
  have H: "CurrentHealth r =
      (if now env - l < T * Second then ''healthy''
       else if now env - l < 2 * T * Second then ''stale'' else ''dead'')"
    using h newHealth_of_in_range [OF range] by simp
  have "AgentID r = ID agent \<and>
        (now env - l < T * Second \<longrightarrow> CurrentHealth r = ''healthy'') \<and>
        (T * Second \<le> now env - l \<and> now env - l < 2 * T * Second \<longrightarrow>
           CurrentHealth r = ''stale'') \<and>
        (2 * T * Second \<le> now env - l \<longrightarrow> CurrentHealth r = ''dead'') \<and>
        (now env - l = T * Second \<longrightarrow> CurrentHealth r = ''stale'') \<and>
        (now env - l = 2 * T * Second \<longrightarrow> CurrentHealth r = ''dead'')"
    using r(2) pos H by auto
  with run r(1) show ?thesis by blast
qed

text \<open>
  C1, at the input where the code departs from it. The bead of alice is an open agent
  bead of priority 2; its last_heartbeat and its heartbeat_timeout parse, the timeout
  of 180 seconds is a valid one, and its age of 400 seconds is at least twice the
  timeout, so the claim says that the pass finds alice dead. The pass returns no row
  and leaves the store as it was, the health of alice still healthy: its query leaves
  the priority of the filter at Go's zero value, which selects the agent beads of
  priority 0, so the loop never sees this bead. The same bead with the priority 0 is
  found dead.
\<close>

theorem health_check_skips_agents_of_other_priority:
  "IssueType alice_bead_P2 = ''agent'' \<and> Status alice_bead_P2 = ''open'' \<and>
   Priority alice_bead_P2 = 2 \<and>
   ParseAgentFields example_env (Description alice_bead_P2) = Some alice_fields \<and>
   Health alice_fields = ''healthy'' \<and>
   time_Parse example_env (LastHeartbeat alice_fields) = Some (1770372000 * Second) \<and>
   strconv_Atoi example_env (HeartbeatTimeout alice_fields) = Some 180 \<and>
   ValidateHeartbeatTimeout 180 = None \<and>
   now example_env - 1770372000 * Second = 400 * Second \<and>
   CheckWorkerHealth example_env [alice_bead_P2, work_item ''in_progress''] =
     ([alice_bead_P2, work_item ''in_progress''], Inr []) \<and>
   map_option (map CurrentHealth)
     (case snd (CheckWorkerHealth example_env [alice_bead, work_item ''in_progress'']) of
        Inl _ \<Rightarrow> None | Inr rs \<Rightarrow> Some rs) = Some [''dead'']"
  by (simp add: CheckWorkerHealth_def beads_List_def matches_filter_def work_item_def
      alice_bead_P2_def ValidateHeartbeatTimeout_def
      example_defs checkAgent_def newHealth_of_def time_Sub_def wrap64_def
      minDuration_def maxDuration_def Second_def beads_Update_def lookup_issue_def
      apply_update_def HealthHealthy_def HealthStale_def HealthDead_def LifecycleCrashed_def
      reassignOrphanWork_def beads_Show_def Let_def)

text \<open>
  C2, at the input where the code departs from it. Alice is found dead and holds
  gt-123, whose status is blocked. The pass marks her bead dead and crashed, reports no
  error and writes "reassigned work gt-123" into the action, but gt-123 stays blocked
  and assigned to her: reassignOrphanWork returns early for every status other than
  in_progress.
\<close>

theorem dead_worker_blocked_work_not_reassigned:
  "(case CheckWorkerHealth example_env [alice_bead, work_item ''blocked''] of
      (st', res) \<Rightarrow>
        map_option Status (lookup_issue st' ''gt-123'') = Some ''blocked'' \<and>
        map_option Assignee (lookup_issue st' ''gt-123'') = Some ''greenplace/polecats/alice'' \<and>
        map_option Description (lookup_issue st' ''greenplace/polecats/alice'') =
          Some (example_format ''alice''
                  (alice_fields\<lparr>Health := ''dead'', LifecycleState := ''crashed''\<rparr>)) \<and>
        map_option (map CurrentHealth) (case res of Inl _ \<Rightarrow> None | Inr rs \<Rightarrow> Some rs) = Some [''dead''] \<and>
        map_option (map CheckError) (case res of Inl _ \<Rightarrow> None | Inr rs \<Rightarrow> Some rs) = Some [None] \<and>
        map_option (map Action) (case res of Inl _ \<Rightarrow> None | Inr rs \<Rightarrow> Some rs) =
          Some [''updated health: healthy '' @ arrow @ '' dead, reassigned work gt-123''])"
  by (simp add: CheckWorkerHealth_def beads_List_def matches_filter_def work_item_def
      example_defs checkAgent_def newHealth_of_def time_Sub_def wrap64_def
      minDuration_def maxDuration_def Second_def beads_Update_def lookup_issue_def
      apply_update_def HealthHealthy_def HealthStale_def HealthDead_def LifecycleCrashed_def
      reassignOrphanWork_def beads_Show_def Let_def)

text \<open>The same pass with gt-123 in progress: the work item is reopened and unassigned.\<close>

lemma dead_worker_in_progress_work_reassigned:
  "(case CheckWorkerHealth example_env [alice_bead, work_item ''in_progress''] of
      (st', res) \<Rightarrow>
        map_option Status (lookup_issue st' ''gt-123'') = Some ''open'' \<and>
        map_option Assignee (lookup_issue st' ''gt-123'') = Some '''')"
  by (simp add: CheckWorkerHealth_def beads_List_def matches_filter_def work_item_def
      example_defs checkAgent_def newHealth_of_def time_Sub_def wrap64_def
      minDuration_def maxDuration_def Second_def beads_Update_def lookup_issue_def
      apply_update_def HealthHealthy_def HealthStale_def HealthDead_def LifecycleCrashed_def
      reassignOrphanWork_def beads_Show_def Let_def)



section \<open>Properties of the merge queue\<close>

lemma pushes_logged_push [simp]: "pushes (logged (''push'' # args) r) = Suc (pushes r)"
  by (simp add: pushes_def logged_def is_push_def)

lemma pushes_time_Sleep [simp]: "pushes (time_Sleep d r) = pushes r"
  by (simp add: pushes_def time_Sleep_def)

lemma pushLoop_step:
  "attempt \<le> 3 \<Longrightarrow>
   pushLoop env t attempt d l r =
     (let r1 = (if attempt > 0 then time_Sleep d r else r);
          d1 = (if attempt > 0 then wrap64 (d * 2) else d)
      in case push_err env (pushes r1) of
           None \<Rightarrow> (logged [''push'', ''origin'', t] r1, None)
         | Some err \<Rightarrow>
             pushLoop env t (attempt + 1) d1 (Some err) (logged [''push'', ''origin'', t] r1))"
  by (subst pushLoop.simps) (simp add: maxRetries_def git_push_def Let_def split: option.splits)

lemma pushLoop_stop:
  "3 < attempt \<Longrightarrow>
   pushLoop env t attempt d l r =
     (r, Some (''push failed after 3 retries: '' @ (case l of None \<Rightarrow> ''<nil>'' | Some e \<Rightarrow> e)))"
  by (subst pushLoop.simps) (simp add: maxRetries_def)

lemma ex_less_4: "(\<exists>k<4. P (k::nat)) \<longleftrightarrow> P 0 \<or> P 1 \<or> P 2 \<or> P 3"
proof -
  have "\<And>k::nat. k < 4 \<longleftrightarrow> k = 0 \<or> k = 1 \<or> k = 2 \<or> k = 3" by arith
  then show ?thesis by auto
qed

lemma add_3_Suc: "n + 3 = Suc (Suc (Suc n))"
  by simp

lemma replicate_4: "replicate 4 x = [x, x, x, x]"
  by (simp add: numeral_eq_Suc)

lemma wrap64_backoff:
  "wrap64 (Second * 2) = 2 * Second" "wrap64 (2 * Second * 2) = 4 * Second"
  "wrap64 (4 * Second) = 4 * Second"
  by (simp_all add: wrap64_def Second_def)

lemma pushWithRetry_cases:
  "pushWithRetry env t r =
     (let p = [''push'', ''origin'', t]; n = pushes r in
      case push_err env n of
        None \<Rightarrow> (r\<lparr>commands := commands r @ [p]\<rparr>, None)
      | Some e0 \<Rightarrow>
          (case push_err env (n + 1) of
             None \<Rightarrow> (r\<lparr>commands := commands r @ [p, p], slept := slept r @ [Second]\<rparr>, None)
           | Some e1 \<Rightarrow>
               (case push_err env (n + 2) of
                  None \<Rightarrow>
                    (r\<lparr>commands := commands r @ [p, p, p],
                       slept := slept r @ [Second, 2 * Second]\<rparr>, None)
                | Some e2 \<Rightarrow>
                    (case push_err env (n + 3) of
                       None \<Rightarrow>
                         (r\<lparr>commands := commands r @ [p, p, p, p],
                            slept := slept r @ [Second, 2 * Second, 4 * Second]\<rparr>, None)
                     | Some e3 \<Rightarrow>
                         (r\<lparr>commands := commands r @ [p, p, p, p],
                            slept := slept r @ [Second, 2 * Second, 4 * Second]\<rparr>,
                          Some (''push failed after 3 retries: '' @ e3))))))"
  unfolding pushWithRetry_def
  by (cases "push_err env (pushes r)"; cases "push_err env (Suc (pushes r))";
      cases "push_err env (Suc (Suc (pushes r)))";
      cases "push_err env (Suc (Suc (Suc (pushes r))))")
    (simp_all add: pushLoop_step pushLoop_stop Let_def logged_def time_Sleep_def wrap64_backoff
      pushes_def is_push_def add_3_Suc)

lemma pushWithRetry_frame:
  "pushWithRetry env t r = (r', e) \<Longrightarrow>
   branches r' = branches r \<and> checked_out r' = checked_out r \<and> merge_pending r' = merge_pending r"
  by (auto simp: pushWithRetry_cases Let_def split: option.splits)

lemma git_checkout_effect:
  "git_checkout env t r = (r1, e) \<Longrightarrow>
   branches r1 = branches r \<and> merge_pending r1 = merge_pending r \<and>
   (e = None \<longrightarrow> checked_out r1 = t)"
  by (auto simp: git_checkout_def logged_def split: option.splits)

lemma git_pull_effect [simp]:
  "branches (fst (git_pull env t r)) =
     (branches r)(checked_out r := pulled env @ branches r (checked_out r))"
  "checked_out (fst (git_pull env t r)) = checked_out r"
  "merge_pending (fst (git_pull env t r)) = merge_pending r"
  by (auto simp: git_pull_def pulled_def logged_def split: sum.splits)

lemma git_merge_failed_effect:
  "git_merge env ref msg r = (r3, Some e) \<Longrightarrow>
   branches r3 = branches r \<and> checked_out r3 = checked_out r"
  by (auto simp: git_merge_def logged_def Let_def split: if_splits merge_outcome.splits)

lemma git_merge_done_effect:
  "git_merge env ref msg r = (r3, None) \<Longrightarrow>
   checked_out r3 = checked_out r \<and> merge_pending r3 = merge_pending r \<and>
   branches r (checked_out r) \<noteq> [] \<and>
   (merge_result env = AlreadyUpToDate \<and> branches r3 = branches r \<or>
    (\<exists>c. merge_result env = Merged c \<and>
         branches r3 = (branches r)(checked_out r := c # branches r (checked_out r))))"
  by (auto simp: git_merge_def logged_def Let_def split: if_splits merge_outcome.splits)

lemma git_merge_abort_effect [simp]:
  "merge_pending (fst (git_merge_abort r)) = False"
  "branches (fst (git_merge_abort r)) = branches r"
  "checked_out (fst (git_merge_abort r)) = checked_out r"
  by (simp_all add: git_merge_abort_def logged_def)

lemma git_reset_effect:
  "checked_out (fst (git_reset_hard_parent r)) = checked_out r"
  "merge_pending (fst (git_reset_hard_parent r)) = merge_pending r"
  "branches r (checked_out r) = c # p # older \<Longrightarrow>
   branches (fst (git_reset_hard_parent r)) = (branches r)(checked_out r := p # older)"
  by (simp_all add: git_reset_hard_parent_def logged_def split: list.splits)

lemma last_commands:
  "last (commands (fst (git_merge_abort r))) = [''merge'', ''--abort'']"
  "last (commands (fst (git_reset_hard_parent r))) = [''reset'', ''--hard'', ''HEAD~1'']"
  by (simp_all add: git_merge_abort_def git_reset_hard_parent_def logged_def split: list.splits)

lemma ExecuteMerge_undone:
  assumes run: "ExecuteMerge env cfg mr f r = (r', res)"
    and kind: "Conflict res \<or> TestsFailed res \<or> starts_with ''push failed'' (Error res)"
    and clean: "\<not> merge_pending r"
    and commit: "merge_result env \<noteq> AlreadyUpToDate"
  shows "branches r' (target_of cfg f) = pulled env @ branches r (target_of cfg f) \<and>
     \<not> merge_pending r' \<and> checked_out r' = target_of cfg f \<and> \<not> Success res \<and>
     last (commands r') =
       (if Conflict res then [''merge'', ''--abort''] else [''reset'', ''--hard'', ''HEAD~1''])"
proof -
  define t where "t = target_of cfg f"
  have t: "(if Target f = '''' then TargetBranch cfg else Target f) = t"
    by (simp add: t_def target_of_def)
  obtain r1 ce where co: "git_checkout env t r = (r1, ce)"
    by (cases "git_checkout env t r")
  show ?thesis
  proof (cases ce)
    case (Some e)
    with run co have "res = failure (''checkout target failed: '' @ e)"
      by (simp add: ExecuteMerge_def Let_def t)
    with kind show ?thesis
      by (simp add: failure_def starts_with_def)
  next
    case None
    from git_checkout_effect [OF co] None
    have r1: "branches r1 = branches r" "merge_pending r1 = merge_pending r" "checked_out r1 = t"
      by simp_all
    define r2 where "r2 = fst (git_pull env t r1)"
    have r2: "branches r2 t = pulled env @ branches r t" "checked_out r2 = t"
      "merge_pending r2 = merge_pending r"
      by (simp_all add: r2_def r1)
    obtain r3 me where m:
      "git_merge env (''origin/'' @ Branch f) (''Merge '' @ Branch f @ '': '' @ Title mr) r2 = (r3, me)"
      by (cases "git_merge env (''origin/'' @ Branch f) (''Merge '' @ Branch f @ '': '' @ Title mr) r2")
    show ?thesis
    proof (cases me)
      case (Some errStr)
      from git_merge_failed_effect [OF m [unfolded Some]] r2
      have r3: "branches r3 t = pulled env @ branches r t" "checked_out r3 = t"
        by simp_all
      show ?thesis
      proof (cases "strings_Contains errStr ''CONFLICT'' \<or> strings_Contains errStr ''conflict''")
        case True
        with run co None m Some
        have "r' = fst (git_merge_abort r3)" and "\<not> Success res" and "Conflict res"
          by (auto simp: ExecuteMerge_def Let_def t r2_def)
        with r3 show ?thesis by (simp add: t_def last_commands)
      next
        case False
        with run co None m Some
        have "res = failure (''merge failed: '' @ errStr)"
          by (auto simp: ExecuteMerge_def Let_def t r2_def)
        with kind show ?thesis
          by (simp add: failure_def starts_with_def)
      qed
    next
      case mNone: None
      from git_merge_done_effect [OF m [unfolded mNone]] commit r2 clean
      obtain c where r3: "branches r3 = (branches r2)(t := c # branches r2 t)"
        "checked_out r3 = t" "\<not> merge_pending r3" "branches r2 t \<noteq> []"
        by auto
      from r3(4) obtain p older where po: "branches r2 t = p # older"
        by (cases "branches r2 t") auto
      have undo: "\<And>x. branches x = branches r3 \<Longrightarrow> checked_out x = t \<Longrightarrow>
          branches (fst (git_reset_hard_parent x)) t = pulled env @ branches r t"
        using git_reset_effect(3) [of _ c p older] r3(1) po r2(1) by simp
      define te where "te = (if RunTests cfg
          then runTests env (if TestCommand cfg = '''' then ''go test ./...'' else TestCommand cfg)
          else None)"
      show ?thesis
      proof (cases te)
        case (Some err)
        with run co None m mNone
        have "r' = fst (git_reset_hard_parent r3)" and "\<not> Success res" and "\<not> Conflict res"
          by (auto simp: ExecuteMerge_def Let_def t r2_def te_def)
        with undo [of r3] r3 show ?thesis
          by (simp add: git_reset_effect t_def last_commands)
      next
        case tNone: None
        obtain r4 pe where p: "pushWithRetry env t r3 = (r4, pe)"
          by (cases "pushWithRetry env t r3")
        from pushWithRetry_frame [OF p] r3
        have r4: "branches r4 = branches r3" "checked_out r4 = t" "\<not> merge_pending r4"
          by simp_all
        show ?thesis
        proof (cases pe)
          case (Some err)
          with run co None m mNone tNone p
          have "r' = fst (git_reset_hard_parent r4)" and "\<not> Success res" and "\<not> Conflict res"
            by (auto simp: ExecuteMerge_def Let_def t r2_def te_def failure_def)
          with undo [of r4] r4 show ?thesis
            by (simp add: git_reset_effect t_def last_commands)
        next
          case None
          with run co \<open>ce = None\<close> m mNone tNone p
          have "\<not> Conflict res \<and> \<not> TestsFailed res \<and> Error res = ''''"
            by (auto simp: ExecuteMerge_def Let_def t r2_def te_def
                split: prod.splits sum.splits)
          with kind show ?thesis
            by (simp add: starts_with_def)
        qed
      qed
    qed
  qed
qed

lemma lookup_issue_mem: "x \<in> set st \<Longrightarrow> \<exists>y. lookup_issue st (ID x) = Some y"
  by (induction st) (auto simp: lookup_issue_def)

lemma lookup_issue_map:
  "(\<And>x. ID (g x) = ID x) \<Longrightarrow>
   lookup_issue (map (\<lambda>x. if ID x = i then g x else x) st) i = map_option g (lookup_issue st i)"
  by (induction st) (auto simp: lookup_issue_def)

lemma beads_Update_found:
  assumes "lookup_issue st i = Some y"
  shows "\<exists>st'. beads_Update None st i opts = Inr st' \<and>
     lookup_issue st' i = Some (apply_update opts y)"
  using assms lookup_issue_map [of "apply_update opts" i st]
  by (simp add: beads_Update_def apply_update_def)

lemma beads_CloseWithReason_found:
  assumes "lookup_issue st i = Some y"
  shows "\<exists>st'. beads_CloseWithReason None st reason i = Inr st' \<and>
     lookup_issue st' i = Some (y\<lparr>Status := ''closed'', CloseReason := reason\<rparr>)"
  using assms lookup_issue_map [of "\<lambda>x. x\<lparr>Status := ''closed'', CloseReason := reason\<rparr>" i st]
  by (simp add: beads_CloseWithReason_def)

lemma ready_head_in_store:
  "beads_ReadyWithType fault st t = Inr (mr # rest) \<Longrightarrow> mr \<in> set st"
proof -
  assume "beads_ReadyWithType fault st t = Inr (mr # rest)"
  then have "mr # rest = sort_key Priority (filter (\<lambda>x. IssueType x = t \<and> Status x = ''open'') st)"
    by (auto simp: beads_ReadyWithType_def split: option.splits)
  then have "mr \<in> set (sort_key Priority (filter (\<lambda>x. IssueType x = t \<and> Status x = ''open'') st))"
    by (metis list.set_intros(1))
  then show ?thesis by simp
qed

lemma ExecuteMerge_success:
  assumes run: "ExecuteMerge env cfg mr f r = (r', res)" and ok: "Success res"
  shows "checked_out r' = target_of cfg f \<and>
     (case revparse_err env of
        None \<Rightarrow> \<exists>c older. branches r' (target_of cfg f) = c # older \<and> MergeCommit res = c
      | Some _ \<Rightarrow> MergeCommit res = ''unknown'')"
proof -
  define t where "t = target_of cfg f"
  have t: "(if Target f = '''' then TargetBranch cfg else Target f) = t"
    by (simp add: t_def target_of_def)
  obtain r1 ce where co: "git_checkout env t r = (r1, ce)"
    by (cases "git_checkout env t r")
  have ce: "ce = None"
  proof (cases ce)
    case (Some e)
    with run co ok show ?thesis
      by (auto simp: ExecuteMerge_def Let_def t failure_def)
  qed simp
  from git_checkout_effect [OF co] ce have r1: "checked_out r1 = t" by simp
  define r2 where "r2 = fst (git_pull env t r1)"
  have r2: "checked_out r2 = t" by (simp add: r2_def r1)
  obtain r3 me where m:
    "git_merge env (''origin/'' @ Branch f) (''Merge '' @ Branch f @ '': '' @ Title mr) r2 = (r3, me)"
    by (cases "git_merge env (''origin/'' @ Branch f) (''Merge '' @ Branch f @ '': '' @ Title mr) r2")
  have me: "me = None"
  proof (cases me)
    case (Some errStr)
    with run co ce m ok show ?thesis
      by (auto simp: ExecuteMerge_def Let_def t r2_def failure_def split: if_splits)
  qed simp
  from git_merge_done_effect [OF m [unfolded me]] r2
  have r3: "checked_out r3 = t" "branches r3 t \<noteq> []"
    by auto
  define te where "te = (if RunTests cfg
      then runTests env (if TestCommand cfg = '''' then ''go test ./...'' else TestCommand cfg)
      else None)"
  have te: "te = None"
  proof (cases te)
    case (Some err)
    with run co ce m me ok show ?thesis
      by (auto simp: ExecuteMerge_def Let_def t r2_def te_def)
  qed simp
  obtain r4 pe where p: "pushWithRetry env t r3 = (r4, pe)"
    by (cases "pushWithRetry env t r3")
  have pe: "pe = None"
  proof (cases pe)
    case (Some err)
    with run co ce m me te p ok show ?thesis
      by (auto simp: ExecuteMerge_def Let_def t r2_def te_def failure_def)
  qed simp
  from pushWithRetry_frame [OF p] r3
  have r4: "checked_out r4 = t" "branches r4 t \<noteq> []"
    by simp_all
  then obtain c older where h: "branches r4 t = c # older"
    by (cases "branches r4 t") auto
  from run co ce m me te p pe
  have fin: "(r', res) =
      (case git_rev_parse_HEAD env r4 of
         (r5, Inl _) \<Rightarrow>
           (r5, \<lparr>Success = True, MergeCommit = ''unknown'', Error = '''',
                 Conflict = False, TestsFailed = False\<rparr>)
       | (r5, Inr mergeCommit) \<Rightarrow>
           (r5, \<lparr>Success = True, MergeCommit = mergeCommit, Error = '''',
                 Conflict = False, TestsFailed = False\<rparr>))"
    by (simp add: ExecuteMerge_def Let_def t r2_def te_def)
  show ?thesis
    using fin r4(1) h
    by (auto simp: git_rev_parse_HEAD_def logged_def t_def [symmetric] split: option.splits)
qed

lemma ProcessMR_cases:
  assumes "ProcessMR env cfg mr r = (r', res)"
    and "Success res \<or> Conflict res \<or> TestsFailed res \<or> starts_with ''push failed'' (Error res)"
  shows "\<exists>f. ParseMRFields env mr = Some f \<and>
     ExecuteMerge env cfg mr f (logged [''fetch'', ''origin'', Branch f] r) = (r', res)"
  using assms
  by (auto simp: ProcessMR_def git_fetch_def failure_def starts_with_def
      split: option.splits if_splits)

lemma logged_frame [simp]:
  "branches (logged a r) = branches r" "checked_out (logged a r) = checked_out r"
  "merge_pending (logged a r) = merge_pending r"
  by (simp_all add: logged_def)

lemma processOnce_claimed:
  assumes live: "\<not> ctx_done env"
    and ready: "beads_ReadyWithType (ready_fault env) st ''merge-request'' = Inr (mr # rest)"
    and claim: "claim_fault env = None"
  obtains y st1 where "lookup_issue st (ID mr) = Some y"
    and "lookup_issue st1 (ID mr) = Some (y\<lparr>Status := ''in_progress''\<rparr>)"
    and "processOnce env cfg r st =
      (case ProcessMR env cfg mr r of
         (r1, result) \<Rightarrow>
           if Success result then
             (case beads_CloseWithReason (close_fault env) st1
                     (''merged: '' @ MergeCommit result) (ID mr) of
                Inl _ \<Rightarrow> (r1, st1, None)
              | Inr st2 \<Rightarrow> (r1, st2, None))
           else (r1, handleFailure env mr result st1, None))"
proof -
  from lookup_issue_mem [OF ready_head_in_store [OF ready]]
  obtain y where y: "lookup_issue st (ID mr) = Some y" by blast
  from beads_Update_found [OF y]
  obtain st1 where st1: "beads_Update None st (ID mr)
        \<lparr>upd_Status = Some ''in_progress'', upd_Assignee = None, upd_Description = None\<rparr> = Inr st1"
    and l1: "lookup_issue st1 (ID mr) = Some (apply_update
        \<lparr>upd_Status = Some ''in_progress'', upd_Assignee = None, upd_Description = None\<rparr> y)"
    by blast
  have "lookup_issue st1 (ID mr) = Some (y\<lparr>Status := ''in_progress''\<rparr>)"
    using l1 by (simp add: apply_update_def)
  moreover have "processOnce env cfg r st =
      (case ProcessMR env cfg mr r of
         (r1, result) \<Rightarrow>
           if Success result then
             (case beads_CloseWithReason (close_fault env) st1
                     (''merged: '' @ MergeCommit result) (ID mr) of
                Inl _ \<Rightarrow> (r1, st1, None)
              | Inr st2 \<Rightarrow> (r1, st2, None))
           else (r1, handleFailure env mr result st1, None))"
    using live ready claim st1
    by (cases "ProcessMR env cfg mr r") (simp add: processOnce_def Let_def)
  ultimately show thesis using y that by blast
qed

text \<open>
  C3 (as amended). Let a tick of the Engineer pick the merge request M at the head of
  the ready list, claim it, and process it with success, and let the store accept the
  closing call. Then after the tick M is closed, the target branch is checked out, and
  M's close reason is "merged: " followed by the SHA that resolving HEAD gave after
  merge, tests and push, which is the newest commit of the target branch; when
  resolving HEAD fails, the close reason is "merged: unknown".
\<close>

theorem merged_request_closed_with_head:
  assumes live: "\<not> ctx_done env"
    and ready: "beads_ReadyWithType (ready_fault env) st ''merge-request'' = Inr (mr # rest)"
    and claim: "claim_fault env = None"
    and ok: "Success (snd (ProcessMR env cfg mr r))"
    and close: "close_fault env = None"
    and run: "processOnce env cfg r st = (r', st', err)"
  shows "err = None \<and> map_option Status (lookup_issue st' (ID mr)) = Some ''closed'' \<and>
     (\<exists>f. ParseMRFields env mr = Some f \<and> checked_out r' = target_of cfg f \<and>
        (case revparse_err env of
           None \<Rightarrow>
             \<exists>c older. branches r' (target_of cfg f) = c # older \<and>
               map_option CloseReason (lookup_issue st' (ID mr)) = Some (''merged: '' @ c)
         | Some _ \<Rightarrow>
             map_option CloseReason (lookup_issue st' (ID mr)) = Some ''merged: unknown''))"
proof -
  from processOnce_claimed [OF live ready claim, of cfg r]
  obtain y st1 where l1: "lookup_issue st1 (ID mr) = Some (y\<lparr>Status := ''in_progress''\<rparr>)"
    and po: "processOnce env cfg r st =
      (case ProcessMR env cfg mr r of
         (r1, result) \<Rightarrow>
           if Success result then
             (case beads_CloseWithReason (close_fault env) st1
                     (''merged: '' @ MergeCommit result) (ID mr) of
                Inl _ \<Rightarrow> (r1, st1, None)
              | Inr st2 \<Rightarrow> (r1, st2, None))
           else (r1, handleFailure env mr result st1, None))"
    by blast
  obtain r1 res where pm: "ProcessMR env cfg mr r = (r1, res)"
    by (cases "ProcessMR env cfg mr r")
  with ok have res: "Success res" by simp
  from ProcessMR_cases [OF pm] res
  obtain f where f: "ParseMRFields env mr = Some f"
    and em: "ExecuteMerge env cfg mr f (logged [''fetch'', ''origin'', Branch f] r) = (r1, res)"
    by blast
  from beads_CloseWithReason_found [OF l1, of "''merged: '' @ MergeCommit res"]
  obtain st2 where c2: "beads_CloseWithReason None st1 (''merged: '' @ MergeCommit res) (ID mr) = Inr st2"
    and l2: "lookup_issue st2 (ID mr) =
        Some (y\<lparr>Status := ''in_progress'', Status := ''closed'',
               CloseReason := ''merged: '' @ MergeCommit res\<rparr>)"
    by blast
  from run po pm res close c2 have fin: "r' = r1" "st' = st2" "err = None"
    by simp_all
  from ExecuteMerge_success [OF em res] f l2 show ?thesis
    unfolding fin
    by (auto split: option.splits)
qed

text \<open>
  What a failed tick does undo. Let a tick pick and claim the merge request M, let the
  result of its processing carry the conflict flag, the test-failure flag or an error
  that begins with "push failed", and let the store accept the reopening update. Let
  no merge be pending before the tick and let the merge not answer that the branch is
  merged already. Then after the tick M is open again and the local target branch is
  as it was just before the merge: its state before the tick with the commits on top
  that the pull of this tick brought. No merge is pending, and the last git command
  was \<open>merge --abort\<close> under the conflict flag and \<open>reset --hard HEAD~1\<close> otherwise.
\<close>

lemma flagged_failure_undone:
  assumes live: "\<not> ctx_done env"
    and ready: "beads_ReadyWithType (ready_fault env) st ''merge-request'' = Inr (mr # rest)"
    and claim: "claim_fault env = None"
    and f: "ParseMRFields env mr = Some f"
    and kind: "Conflict (snd (ProcessMR env cfg mr r)) \<or> TestsFailed (snd (ProcessMR env cfg mr r)) \<or>
       starts_with ''push failed'' (Error (snd (ProcessMR env cfg mr r)))"
    and reopen: "reopen_fault env = None"
    and clean: "\<not> merge_pending r"
    and commit: "merge_result env \<noteq> AlreadyUpToDate"
    and run: "processOnce env cfg r st = (r', st', err)"
  shows "map_option Status (lookup_issue st' (ID mr)) = Some ''open'' \<and>
     branches r' (target_of cfg f) = pulled env @ branches r (target_of cfg f) \<and>
     (pulled env = [] \<longrightarrow> branches r' (target_of cfg f) = branches r (target_of cfg f)) \<and>
     \<not> merge_pending r' \<and>
     last (commands r') =
       (if Conflict (snd (ProcessMR env cfg mr r)) then [''merge'', ''--abort'']
        else [''reset'', ''--hard'', ''HEAD~1''])"
proof -
  from processOnce_claimed [OF live ready claim, of cfg r]
  obtain y st1 where l1: "lookup_issue st1 (ID mr) = Some (y\<lparr>Status := ''in_progress''\<rparr>)"
    and po: "processOnce env cfg r st =
      (case ProcessMR env cfg mr r of
         (r1, result) \<Rightarrow>
           if Success result then
             (case beads_CloseWithReason (close_fault env) st1
                     (''merged: '' @ MergeCommit result) (ID mr) of
                Inl _ \<Rightarrow> (r1, st1, None)
              | Inr st2 \<Rightarrow> (r1, st2, None))
           else (r1, handleFailure env mr result st1, None))"
    by blast
  obtain r1 res where pm: "ProcessMR env cfg mr r = (r1, res)"
    by (cases "ProcessMR env cfg mr r")
  with kind have k: "Conflict res \<or> TestsFailed res \<or> starts_with ''push failed'' (Error res)"
    by simp
  from ProcessMR_cases [OF pm] k f
  have em: "ExecuteMerge env cfg mr f (logged [''fetch'', ''origin'', Branch f] r) = (r1, res)"
    by auto
  from ExecuteMerge_undone [OF em k _ commit] clean
  have u: "branches r1 (target_of cfg f) = pulled env @ branches r (target_of cfg f)"
    "\<not> merge_pending r1" "\<not> Success res"
    "last (commands r1) =
       (if Conflict res then [''merge'', ''--abort''] else [''reset'', ''--hard'', ''HEAD~1''])"
    by simp_all
  from beads_Update_found [OF l1]
  obtain st2 where u2: "beads_Update None st1 (ID mr)
        \<lparr>upd_Status = Some ''open'', upd_Assignee = None, upd_Description = None\<rparr> = Inr st2"
    and l2: "lookup_issue st2 (ID mr) = Some (apply_update
        \<lparr>upd_Status = Some ''open'', upd_Assignee = None, upd_Description = None\<rparr>
        (y\<lparr>Status := ''in_progress''\<rparr>))"
    by blast
  from run po pm u(3) reopen u2 have fin: "r' = r1" "st' = st2"
    by (simp_all add: handleFailure_def)
  from u l2 pm show ?thesis
    unfolding fin by (simp add: apply_update_def)
qed

text \<open>
  C10. When the description of a merge-request issue carries no MR fields (ParseMRFields
  gives nil), ProcessMR returns a failure whose error is exactly "no MR fields found in
  description"; when the fields are there and the branch is empty, the error is exactly
  "branch field is required in merge request". In both cases the clone is returned as
  it was given, log of git commands included: no git command was run.
\<close>

theorem ProcessMR_rejects_before_git:
  "(ParseMRFields env mr = None \<longrightarrow>
      ProcessMR env cfg mr r =
        (r, \<lparr>Success = False, MergeCommit = '''', Error = ''no MR fields found in description'',
             Conflict = False, TestsFailed = False\<rparr>)) \<and>
   (\<forall>f. ParseMRFields env mr = Some f \<and> Branch f = '''' \<longrightarrow>
      ProcessMR env cfg mr r =
        (r, \<lparr>Success = False, MergeCommit = '''',
             Error = ''branch field is required in merge request'',
             Conflict = False, TestsFailed = False\<rparr>))"
  by (simp add: ProcessMR_def failure_def)

lemmas refinery_example_defs =
  clean_env_def example_repo_def good_mr_def no_fields_mr_def
  no_branch_mr_def mr_issue_def example_parse_mr_def mr_fields_def DefaultMergeQueueConfig_def

lemmas refinery_eval =
  processOnce_def beads_ReadyWithType_def beads_Update_def beads_CloseWithReason_def
  handleFailure_def lookup_issue_def apply_update_def ProcessMR_def ExecuteMerge_def
  git_fetch_def git_checkout_def git_pull_def git_merge_def git_merge_abort_def
  git_reset_hard_parent_def git_rev_parse_HEAD_def logged_def pushWithRetry_cases
  runTests_def strings_Fields_def is_space_def failure_def pushes_def is_push_def Let_def

lemma example_ready:
  "beads_ReadyWithType None [good_mr] ''merge-request'' = Inr (good_mr # [])"
  by (simp add: beads_ReadyWithType_def good_mr_def mr_issue_def)

lemma clean_run:
  "snd (ProcessMR clean_env DefaultMergeQueueConfig good_mr example_repo) =
     \<lparr>Success = True, MergeCommit = ''9fceb02'', Error = '''', Conflict = False,
      TestsFailed = False\<rparr>"
  by (simp add: refinery_eval refinery_example_defs)

lemma all_less_4: "(\<forall>k<4. P (k::nat)) \<longleftrightarrow> P 0 \<and> P 1 \<and> P 2 \<and> P 3"
proof -
  have "\<And>k::nat. k < 4 \<longleftrightarrow> k = 0 \<or> k = 1 \<or> k = 2 \<or> k = 3" by arith
  then show ?thesis by auto
qed

lemma ExecuteMerge_push_failure:
  assumes co: "checkout_err env = None"
    and mg: "merge_result env = Merged c"
    and hist: "branches r (target_of cfg f) \<noteq> []"
    and ts: "\<not> RunTests cfg \<or> test_err env = None"
    and pf: "\<forall>k<4. push_err env (pushes r + k) \<noteq> None"
  shows "\<exists>e. push_err env (pushes r + 3) = Some e \<and>
     snd (ExecuteMerge env cfg mr f r) =
       \<lparr>Success = False, MergeCommit = '''',
        Error = ''push failed: push failed after 3 retries: '' @ e,
        Conflict = False, TestsFailed = False\<rparr>"
proof -
  from pf obtain e0 e1 e2 e3 where e:
    "push_err env (pushes r) = Some e0" "push_err env (Suc (pushes r)) = Some e1"
    "push_err env (Suc (Suc (pushes r))) = Some e2"
    "push_err env (Suc (Suc (Suc (pushes r)))) = Some e3"
    by (auto simp: all_less_4 add_3_Suc)
  define t where "t = target_of cfg f"
  have t: "(if Target f = '''' then TargetBranch cfg else Target f) = t"
    by (simp add: t_def target_of_def)
  define r3 where "r3 =
    fst (git_merge env (''origin/'' @ Branch f) (''Merge '' @ Branch f @ '': '' @ Title mr)
          (fst (git_pull env t (fst (git_checkout env t r)))))"
  have m: "git_merge env (''origin/'' @ Branch f) (''Merge '' @ Branch f @ '': '' @ Title mr)
          (fst (git_pull env t (fst (git_checkout env t r)))) = (r3, None)"
    using co mg hist
    by (simp add: r3_def git_merge_def git_pull_def git_checkout_def logged_def Let_def t_def
        split: sum.splits)
  have p3: "pushes r3 = pushes r"
    using co mg hist
    by (simp add: r3_def git_merge_def git_pull_def git_checkout_def logged_def Let_def t_def
        pushes_def is_push_def split: sum.splits)
  have te: "(if RunTests cfg
      then runTests env (if TestCommand cfg = '''' then ''go test ./...'' else TestCommand cfg)
      else None) = None"
    using ts by (auto simp: runTests_def Let_def)
  have pw: "snd (pushWithRetry env t r3) = Some (''push failed after 3 retries: '' @ e3)"
    using e by (simp add: pushWithRetry_cases p3 Let_def add_3_Suc)
  obtain r4 where r4: "pushWithRetry env t r3 = (r4, Some (''push failed after 3 retries: '' @ e3))"
    using pw by (cases "pushWithRetry env t r3") simp
  have "snd (ExecuteMerge env cfg mr f r) =
       \<lparr>Success = False, MergeCommit = '''',
        Error = ''push failed: push failed after 3 retries: '' @ e3,
        Conflict = False, TestsFailed = False\<rparr>"
    using co m te r4
    by (simp add: ExecuteMerge_def t Let_def git_checkout_def failure_def)
  with e(4) show ?thesis by (simp add: add_3_Suc)
qed

text \<open>
  C6 (as amended). pushWithRetry pushes until a push succeeds, at most four times: a
  first attempt and three retries, sleeping 1, 2 and 4 seconds before the retries (a
  base delay of one second, doubled each time). With k the number of pushes it runs,
  k is between 1 and 4, the pushes before the k-th failed, the clone afterwards is the
  clone before with k pushes added to the log of commands and the first k - 1 of the
  three delays added to the log of sleeps, and nothing else is changed. When the k-th
  push succeeds the result is nil; when it fails, k is 4 and the error begins with
  "push failed" and ends with the error of the fourth push. So failure is reported
  exactly when all four pushes fail. When checkout, merge and tests pass and all four
  pushes fail, the result of ExecuteMerge is a failure whose error begins with
  "push failed".
\<close>

theorem push_retry_four_attempts:
  "(\<exists>k. 1 \<le> k \<and> k \<le> 4 \<and>
        (\<forall>j<k - 1. push_err env (pushes r + j) \<noteq> None) \<and>
        fst (pushWithRetry env t r) =
          r\<lparr>commands := commands r @ replicate k [''push'', ''origin'', t],
            slept := slept r @ take (k - 1) [Second, 2 * Second, 4 * Second]\<rparr> \<and>
        (case push_err env (pushes r + (k - 1)) of
           None \<Rightarrow> snd (pushWithRetry env t r) = None
         | Some e \<Rightarrow>
             k = 4 \<and>
             snd (pushWithRetry env t r) = Some (''push failed after 3 retries: '' @ e))) \<and>
   (snd (pushWithRetry env t r) \<noteq> None \<longleftrightarrow> (\<forall>k<4. push_err env (pushes r + k) \<noteq> None)) \<and>
   (\<forall>e. snd (pushWithRetry env t r) = Some e \<longrightarrow> starts_with ''push failed'' e) \<and>
   (checkout_err env = None \<and> merge_result env = Merged c \<and>
    branches r (target_of cfg f) \<noteq> [] \<and> (\<not> RunTests cfg \<or> test_err env = None) \<and>
    (\<forall>k<4. push_err env (pushes r + k) \<noteq> None) \<longrightarrow>
      \<not> Success (snd (ExecuteMerge env cfg mr f r)) \<and>
      starts_with ''push failed'' (Error (snd (ExecuteMerge env cfg mr f r))))"
proof -
  let ?p = "[''push'', ''origin'', t]"
  let ?Q = "\<lambda>k. 1 \<le> k \<and> k \<le> 4 \<and>
        (\<forall>j<k - 1. push_err env (pushes r + j) \<noteq> None) \<and>
        fst (pushWithRetry env t r) =
          r\<lparr>commands := commands r @ replicate k ?p,
            slept := slept r @ take (k - 1) [Second, 2 * Second, 4 * Second]\<rparr> \<and>
        (case push_err env (pushes r + (k - 1)) of
           None \<Rightarrow> snd (pushWithRetry env t r) = None
         | Some e \<Rightarrow>
             k = 4 \<and>
             snd (pushWithRetry env t r) = Some (''push failed after 3 retries: '' @ e))"
  have less: "\<And>P. (\<forall>j<Suc 0. P j) \<longleftrightarrow> P 0" "\<And>P. (\<forall>j<2. P (j::nat)) \<longleftrightarrow> P 0 \<and> P 1"
    "\<And>P. (\<forall>j<3. P (j::nat)) \<longleftrightarrow> P 0 \<and> P 1 \<and> P 2"
    "\<And>P. (\<forall>j<Suc (Suc 0). P j) \<longleftrightarrow> P 0 \<and> P 1"
    "\<And>P. (\<forall>j<Suc (Suc (Suc 0)). P j) \<longleftrightarrow> P 0 \<and> P 1 \<and> P 2"
    by (auto simp: less_Suc_eq numeral_2_eq_2 numeral_3_eq_3)
  have A: "\<exists>k. ?Q k"
  proof (cases "push_err env (pushes r)")
    case None
    then have "?Q 1" by (simp add: pushWithRetry_cases Let_def)
    then show ?thesis ..
  next
    case e0: (Some e0)
    show ?thesis
    proof (cases "push_err env (pushes r + 1)")
      case None
      with e0 have "?Q 2" by (simp add: pushWithRetry_cases Let_def less numeral_2_eq_2)
      then show ?thesis ..
    next
      case e1: (Some e1)
      show ?thesis
      proof (cases "push_err env (pushes r + 2)")
        case None
        with e0 e1 have "?Q 3"
          by (simp add: pushWithRetry_cases Let_def less numeral_3_eq_3)
        then show ?thesis ..
      next
        case e2: (Some e2)
        have "?Q 4"
          using e0 e1 e2
          by (cases "push_err env (pushes r + 3)")
            (simp_all add: pushWithRetry_cases Let_def less replicate_4)
        then show ?thesis ..
      qed
    qed
  qed
  have B: "snd (pushWithRetry env t r) \<noteq> None \<longleftrightarrow> (\<forall>k<4. push_err env (pushes r + k) \<noteq> None)"
    unfolding all_less_4 pushWithRetry_cases
    by (simp add: Let_def add_3_Suc split: option.splits)
  have C: "\<forall>e. snd (pushWithRetry env t r) = Some e \<longrightarrow> starts_with ''push failed'' e"
    unfolding pushWithRetry_cases
    by (simp add: Let_def starts_with_def split: option.splits)
  have D: "\<not> Success (snd (ExecuteMerge env cfg mr f r)) \<and>
      starts_with ''push failed'' (Error (snd (ExecuteMerge env cfg mr f r)))"
    if "checkout_err env = None" "merge_result env = Merged c"
      "branches r (target_of cfg f) \<noteq> []" "\<not> RunTests cfg \<or> test_err env = None"
      "\<forall>k<4. push_err env (pushes r + k) \<noteq> None"
    using ExecuteMerge_push_failure [OF that, of mr] by (auto simp: starts_with_def)
  from A B C D show ?thesis by blast
qed

text \<open>
  The theorem at a remote that rejects every push: four pushes, three sleeps, and the
  error of the fourth push in the message; and at a remote that accepts the second
  push: two pushes, one sleep of a second between them, and no error.
\<close>

theorem push_retry_four_attempts_witness:
  "pushWithRetry push_rejected_env ''main'' example_repo =
     (example_repo
        \<lparr>commands := replicate 4 [''push'', ''origin'', ''main''],
         slept := [Second, 2 * Second, 4 * Second]\<rparr>,
      Some ''push failed after 3 retries: remote rejected'') \<and>
   starts_with ''push failed''
     (Error (snd (ExecuteMerge push_rejected_env DefaultMergeQueueConfig good_mr
                    (mr_fields ''polecat/alice-x'' '''') example_repo))) \<and>
   pushWithRetry second_push_env ''main'' example_repo =
     (example_repo
        \<lparr>commands := replicate 2 [''push'', ''origin'', ''main''], slept := [Second]\<rparr>,
      None)"
proof -
  have p0: "pushes example_repo = 0" by (simp add: pushes_def example_repo_def)
  have logs: "commands example_repo = []" "slept example_repo = []"
    by (simp_all add: example_repo_def)
  have rej: "\<And>n. push_err push_rejected_env n = Some ''remote rejected''"
    by (simp add: push_rejected_env_def clean_env_def)
  have snd_env: "push_err second_push_env 0 = Some ''remote rejected''"
    "\<And>n. 0 < n \<Longrightarrow> push_err second_push_env n = None"
    by (simp_all add: second_push_env_def clean_env_def)
  have pre: "checkout_err push_rejected_env = None \<and>
      merge_result push_rejected_env = Merged ''9fceb02'' \<and>
      branches example_repo (target_of DefaultMergeQueueConfig (mr_fields ''polecat/alice-x'' '''')) \<noteq> [] \<and>
      (\<not> RunTests DefaultMergeQueueConfig \<or> test_err push_rejected_env = None) \<and>
      (\<forall>k<4. push_err push_rejected_env (pushes example_repo + k) \<noteq> None)"
    by (simp add: refinery_example_defs push_rejected_env_def target_of_def)
  note T1 = push_retry_four_attempts [where env = push_rejected_env and t = "''main''"
      and r = example_repo and c = "''9fceb02''" and cfg = DefaultMergeQueueConfig
      and f = "mr_fields ''polecat/alice-x'' ''''" and mr = good_mr]
  from T1 obtain k where k: "1 \<le> k" "k \<le> 4"
    "fst (pushWithRetry push_rejected_env ''main'' example_repo) =
       example_repo\<lparr>commands := commands example_repo @ replicate k [''push'', ''origin'', ''main''],
         slept := slept example_repo @ take (k - 1) [Second, 2 * Second, 4 * Second]\<rparr>"
    "(case push_err push_rejected_env (pushes example_repo + (k - 1)) of
        None \<Rightarrow> snd (pushWithRetry push_rejected_env ''main'' example_repo) = None
      | Some e \<Rightarrow>
          k = 4 \<and>
          snd (pushWithRetry push_rejected_env ''main'' example_repo) =
            Some (''push failed after 3 retries: '' @ e))"
    by blast
  from k(4) have k4: "k = 4"
    and e1: "snd (pushWithRetry push_rejected_env ''main'' example_repo) =
      Some ''push failed after 3 retries: remote rejected''"
    by (simp_all add: rej)
  from k(3) k4 have f1: "fst (pushWithRetry push_rejected_env ''main'' example_repo) =
      example_repo\<lparr>commands := replicate 4 [''push'', ''origin'', ''main''],
        slept := [Second, 2 * Second, 4 * Second]\<rparr>"
    by (simp add: logs)
  from f1 e1 have one: "pushWithRetry push_rejected_env ''main'' example_repo =
     (example_repo
        \<lparr>commands := replicate 4 [''push'', ''origin'', ''main''],
         slept := [Second, 2 * Second, 4 * Second]\<rparr>,
      Some ''push failed after 3 retries: remote rejected'')"
    by (simp add: prod_eq_iff)
  from T1 pre have two: "starts_with ''push failed''
     (Error (snd (ExecuteMerge push_rejected_env DefaultMergeQueueConfig good_mr
                    (mr_fields ''polecat/alice-x'' '''') example_repo)))"
    by blast
  note T2 = push_retry_four_attempts [where env = second_push_env and t = "''main''"
      and r = example_repo and c = "''9fceb02''" and cfg = DefaultMergeQueueConfig
      and f = "mr_fields ''polecat/alice-x'' ''''" and mr = good_mr]
  from T2 obtain m where m: "1 \<le> m" "m \<le> 4"
    "\<forall>j<m - 1. push_err second_push_env (pushes example_repo + j) \<noteq> None"
    "fst (pushWithRetry second_push_env ''main'' example_repo) =
       example_repo\<lparr>commands := commands example_repo @ replicate m [''push'', ''origin'', ''main''],
         slept := slept example_repo @ take (m - 1) [Second, 2 * Second, 4 * Second]\<rparr>"
    "(case push_err second_push_env (pushes example_repo + (m - 1)) of
        None \<Rightarrow> snd (pushWithRetry second_push_env ''main'' example_repo) = None
      | Some e \<Rightarrow>
          m = 4 \<and>
          snd (pushWithRetry second_push_env ''main'' example_repo) =
            Some (''push failed after 3 retries: '' @ e))"
    by blast
  have m2: "m = 2"
  proof -
    have "m \<noteq> 1" using m(5) by (auto simp: p0 snd_env)
    moreover have "\<not> 2 < m"
    proof
      assume "2 < m"
      then have "1 < m - 1" by simp
      with m(3) have "push_err second_push_env (pushes example_repo + 1) \<noteq> None" by blast
      then show False by (simp add: p0 snd_env)
    qed
    ultimately show ?thesis using m(1) by arith
  qed
  from m(5) m2 have e2: "snd (pushWithRetry second_push_env ''main'' example_repo) = None"
    by (simp add: p0 snd_env)
  from m(4) m2 have f2: "fst (pushWithRetry second_push_env ''main'' example_repo) =
      example_repo\<lparr>commands := replicate 2 [''push'', ''origin'', ''main''], slept := [Second]\<rparr>"
    by (simp add: logs)
  from f2 e2 have three: "pushWithRetry second_push_env ''main'' example_repo =
     (example_repo
        \<lparr>commands := replicate 2 [''push'', ''origin'', ''main''], slept := [Second]\<rparr>,
      None)"
    by (simp add: prod_eq_iff)
  from one two three show ?thesis by blast
qed

text \<open>
  The claim says three attempts in total. At a remote that rejects the first three
  pushes and accepts the fourth, pushWithRetry runs a fourth push and returns nil; at
  a remote that rejects every push it runs four pushes before it reports failure.
\<close>

theorem push_retry_three_attempts_counterexample:
  "push_err fourth_push_env 0 = Some ''remote rejected'' \<and>
   push_err fourth_push_env 1 = Some ''remote rejected'' \<and>
   push_err fourth_push_env 2 = Some ''remote rejected'' \<and>
   snd (pushWithRetry fourth_push_env ''main'' example_repo) = None \<and>
   commands (fst (pushWithRetry fourth_push_env ''main'' example_repo)) =
     [[''push'', ''origin'', ''main''], [''push'', ''origin'', ''main''],
      [''push'', ''origin'', ''main''], [''push'', ''origin'', ''main'']] \<and>
   commands (fst (pushWithRetry push_rejected_env ''main'' example_repo)) =
     [[''push'', ''origin'', ''main''], [''push'', ''origin'', ''main''],
      [''push'', ''origin'', ''main''], [''push'', ''origin'', ''main'']]"
  by (simp add: pushWithRetry_cases refinery_example_defs push_rejected_env_def
      fourth_push_env_def pushes_def Let_def)

lemma example_parse:
  "ParseMRFields clean_env good_mr = Some (mr_fields ''polecat/alice-x'' '''')"
  "ParseMRFields clean_env no_fields_mr = None"
  "ParseMRFields clean_env no_branch_mr = Some (mr_fields '''' ''TestWorker'')"
  "target_of DefaultMergeQueueConfig (mr_fields ''polecat/alice-x'' '''') = ''main''"
  by (simp_all add: refinery_example_defs target_of_def)

text \<open>
  The theorem at the clean rig: gt-mr-1 ends closed, with the newest commit of main in
  its close reason.
\<close>

theorem merged_request_closed_with_head_witness:
  "map_option Status
     (lookup_issue (fst (snd (processOnce clean_env DefaultMergeQueueConfig example_repo [good_mr])))
        ''gt-mr-1'') = Some ''closed'' \<and>
   (\<exists>c older.
      branches (fst (processOnce clean_env DefaultMergeQueueConfig example_repo [good_mr])) ''main''
        = c # older \<and>
      map_option CloseReason
        (lookup_issue (fst (snd (processOnce clean_env DefaultMergeQueueConfig example_repo [good_mr])))
           ''gt-mr-1'') = Some (''merged: '' @ c))"
proof -
  define P where "P = processOnce clean_env DefaultMergeQueueConfig example_repo [good_mr]"
  have live: "\<not> ctx_done clean_env" by (simp add: clean_env_def)
  have ready: "beads_ReadyWithType (ready_fault clean_env) [good_mr] ''merge-request'' = Inr (good_mr # [])"
    using example_ready by (simp add: clean_env_def)
  have faults: "claim_fault clean_env = None" "close_fault clean_env = None"
    "revparse_err clean_env = None"
    by (simp_all add: clean_env_def)
  have ok: "Success (snd (ProcessMR clean_env DefaultMergeQueueConfig good_mr example_repo))"
    by (simp add: clean_run)
  have run: "processOnce clean_env DefaultMergeQueueConfig example_repo [good_mr] =
      (fst P, fst (snd P), snd (snd P))"
    by (simp add: P_def)
  have id: "ID good_mr = ''gt-mr-1''" by (simp add: good_mr_def mr_issue_def)
  from merged_request_closed_with_head [OF live ready faults(1) ok faults(2) run]
  show ?thesis
    unfolding P_def [symmetric]
    by (auto simp: example_parse faults id)
qed

text \<open>
  The claim as stated fails at two inputs. When \<open>rev-parse HEAD\<close> fails after a merge
  that was pushed, ProcessMR still reports success and gt-mr-1 is closed with the reason
  "merged: unknown", while HEAD of main is the commit 9fceb02. When the store refuses
  the closing call, the Engineer prints a warning and gt-mr-1 stays in progress.
\<close>

theorem merged_request_closed_counterexample:
  "Success (snd (ProcessMR unknown_head_env DefaultMergeQueueConfig good_mr example_repo)) \<and>
   branches (fst (processOnce unknown_head_env DefaultMergeQueueConfig example_repo [good_mr])) ''main''
     = [''9fceb02'', ''c1'', ''c0''] \<and>
   map_option CloseReason
     (lookup_issue (fst (snd (processOnce unknown_head_env DefaultMergeQueueConfig example_repo [good_mr])))
        ''gt-mr-1'') = Some ''merged: unknown'' \<and>
   Success (snd (ProcessMR close_fails_env DefaultMergeQueueConfig good_mr example_repo)) \<and>
   map_option Status
     (lookup_issue (fst (snd (processOnce close_fails_env DefaultMergeQueueConfig example_repo [good_mr])))
        ''gt-mr-1'') = Some ''in_progress''"
  by (simp add: refinery_eval refinery_example_defs unknown_head_env_def close_fails_env_def)

text \<open>
  C4, at the inputs where the code departs from it. In both ticks gt-mr-1 is open
  again afterwards, as the claim says; the clone is not restored.

  The merge of gt-mr-1 stops on a content conflict. The error \<open>gitRun\<close> returns is
  the exit status, in which ExecuteMerge finds neither "CONFLICT" nor "conflict": the
  result is a plain failure without the conflict flag, \<open>merge --abort\<close> is not run
  (the merge is the last git command of the tick), and the clone is left with the
  merge pending.

  The branch of gt-mr-1 is merged into main already, so the merge succeeds without
  creating a commit, and the tests fail. \<open>reset --hard HEAD~1\<close> then takes the newest
  commit off main, which is a commit of main itself: main was c1, c0 before the tick
  and is c0 after it.
\<close>

theorem failed_request_merge_not_undone:
  "merge_pending example_repo = False \<and>
   branches example_repo ''main'' = [''c1'', ''c0''] \<and>
   ProcessMR conflict_env DefaultMergeQueueConfig good_mr example_repo =
     (example_repo
        \<lparr>merge_pending := True,
         commands :=
           [[''fetch'', ''origin'', ''polecat/alice-x''], [''checkout'', ''main''],
            [''pull'', ''origin'', ''main''],
            [''merge'', ''origin/polecat/alice-x'', ''--no-ff'', ''-m'',
             ''Merge polecat/alice-x: Test MR'']]\<rparr>,
      \<lparr>Success = False, MergeCommit = '''', Error = ''merge failed: exit status 1'',
       Conflict = False, TestsFailed = False\<rparr>) \<and>
   merge_pending (fst (processOnce conflict_env DefaultMergeQueueConfig example_repo [good_mr])) \<and>
   map_option Status
     (lookup_issue (fst (snd (processOnce conflict_env DefaultMergeQueueConfig example_repo [good_mr])))
        ''gt-mr-1'') = Some ''open'' \<and>
   snd (ProcessMR merged_already_env DefaultMergeQueueConfig good_mr example_repo) =
     \<lparr>Success = False, MergeCommit = '''', Error = ''tests failed: exit status 1'',
      Conflict = False, TestsFailed = True\<rparr> \<and>
   commands (fst (processOnce merged_already_env DefaultMergeQueueConfig example_repo [good_mr])) =
     [[''fetch'', ''origin'', ''polecat/alice-x''], [''checkout'', ''main''],
      [''pull'', ''origin'', ''main''],
      [''merge'', ''origin/polecat/alice-x'', ''--no-ff'', ''-m'',
       ''Merge polecat/alice-x: Test MR''],
      [''reset'', ''--hard'', ''HEAD~1'']] \<and>
   branches (fst (processOnce merged_already_env DefaultMergeQueueConfig example_repo [good_mr])) ''main''
     = [''c0''] \<and>
   map_option Status
     (lookup_issue (fst (snd (processOnce merged_already_env DefaultMergeQueueConfig example_repo [good_mr])))
        ''gt-mr-1'') = Some ''open''"
  by (simp add: refinery_eval refinery_example_defs conflict_env_def merged_already_env_def)

text \<open>
  The theorem at the inputs of TestProcessMR_NoMRFields and TestProcessMR_MissingBranch.
\<close>

theorem ProcessMR_rejects_before_git_witness:
  "ProcessMR clean_env DefaultMergeQueueConfig no_fields_mr example_repo =
     (example_repo,
      \<lparr>Success = False, MergeCommit = '''', Error = ''no MR fields found in description'',
       Conflict = False, TestsFailed = False\<rparr>) \<and>
   ProcessMR clean_env DefaultMergeQueueConfig no_branch_mr example_repo =
     (example_repo,
      \<lparr>Success = False, MergeCommit = '''',
       Error = ''branch field is required in merge request'',
       Conflict = False, TestsFailed = False\<rparr>)"
proof -
  have b: "Branch (mr_fields '''' ''TestWorker'') = ''''" by (simp add: mr_fields_def)
  from ProcessMR_rejects_before_git [of clean_env no_fields_mr DefaultMergeQueueConfig example_repo]
    ProcessMR_rejects_before_git [of clean_env no_branch_mr DefaultMergeQueueConfig example_repo]
    example_parse(2,3) b
  show ?thesis by blast
qed


section \<open>Properties of the daemon state\<close>

lemma townRootLoop_cache:
  "filepath_Base p = ''cache'' \<Longrightarrow> townRootLoop p = Some p"
  by (subst townRootLoop.simps) simp

lemma test_cache_dir: "townRootLoop (CacheDir test_config) = Some (FPath True [''tmp'', ''t'', ''cache''])"
  by (simp add: test_config_def townRootLoop_cache)

lemma test_daemon_eval:
  "test_daemon =
     Some \<lparr>beadsDBPath = ''/tmp/t/beads_test.db'', projDBPath = ''/tmp/t/proj_test.db'',
           cacheDir = FPath True [''tmp'', ''t'', ''cache''], pollInterval = Second,
           lastSync = 0, syncCount = 0, errorCount = 0, lastEventID = 12345,
           lastTaskUpdate = 67890, lastCommentSync = 0, incrementalEnabled = True\<rparr>"
  by (simp add: test_daemon_def New_def test_cache_dir LoadState_def calm_os_def no_files_def
      zero_State_def Let_def)
    (simp add: test_config_def Second_def)

text \<open>
  C5, at the input where the code departs from it: the run of
  TestIncrementalStatePreservation. The daemon's cursors are 12345 and 67890 and
  incremental sync is enabled; SaveState succeeds; the daemon that New then constructs
  has both cursors at 0 and incremental sync disabled. SaveState writes the six fields
  its literal names and none of the cursors.
\<close>

theorem saved_cursors_not_reloaded:
  "map_option lastEventID test_daemon = Some 12345 \<and>
   map_option lastTaskUpdate test_daemon = Some 67890 \<and>
   map_option incrementalEnabled test_daemon = Some True \<and>
   map_option lastEventID (Option.bind test_daemon saved_then_loaded) = Some 0 \<and>
   map_option lastTaskUpdate (Option.bind test_daemon saved_then_loaded) = Some 0 \<and>
   map_option incrementalEnabled (Option.bind test_daemon saved_then_loaded) = Some False"
  by (simp add: test_daemon_eval saved_then_loaded_def SaveState_def New_def LoadState_def
      townRootLoop_cache test_cache_dir calm_os_def daemonStateFile_def Let_def)

text \<open>
  The same for every daemon: whatever its cursors were, a daemon constructed from the
  file that SaveState wrote starts with both cursors at 0 and incremental sync off.
\<close>

lemma SaveState_then_New:
  assumes "SaveState d env fs = Some (fs', None)"
    and "CacheDir cfg = cacheDir d" and "\<not> read_fault env'"
  shows "\<exists>d'. New cfg env' fs' = Some d' \<and> lastEventID d' = 0 \<and> lastTaskUpdate d' = 0 \<and>
     \<not> incrementalEnabled d'"
  using assms
  by (auto simp: SaveState_def New_def LoadState_def Let_def split: option.splits if_splits)

section \<open>Properties of the built-in molecules\<close>

lemma lookup_bool_titles:
  "lookup_bool (map (\<lambda>issue. (Title issue, True)) existing) t \<longleftrightarrow> t \<in> Title ` set existing"
  by (induction existing) (auto simp: lookup_bool_def)

lemma list_molecules:
  "beads_List None st \<lparr>list_Type = ''molecule'', list_Status = '''', list_Priority = - 1\<rparr> =
     Inr (filter (\<lambda>x. IssueType x = ''molecule'') st)"
proof -
  have "matches_filter \<lparr>list_Type = ''molecule'', list_Status = '''', list_Priority = - 1\<rparr> =
      (\<lambda>x. IssueType x = ''molecule'')"
    by (rule ext) (simp add: matches_filter_def)
  then show ?thesis by (simp add: beads_List_def)
qed

lemma existing_titles:
  "lookup_bool (map (\<lambda>issue. (Title issue, True)) (filter (\<lambda>x. IssueType x = ''molecule'') st)) t
     \<longleftrightarrow> t \<in> molecule_titles st"
  by (simp add: lookup_bool_titles molecule_titles_def)

lemma seedLoop_nothing_to_do:
  "list_all (\<lambda>m. lookup_bool titles (MolTitle m)) mols \<Longrightarrow>
   seedLoop env titles mols st created = (st, created, None)"
  by (induction mols) simp_all

lemma molecule_titles_append:
  "molecule_titles (st @ [x]) =
     (if IssueType x = ''molecule'' then insert (Title x) (molecule_titles st)
      else molecule_titles st)"
  by (auto simp: molecule_titles_def)

lemma seedLoop_seeds:
  "seedLoop env titles mols st created = (st', n, None) \<Longrightarrow>
   (\<And>t. lookup_bool titles t \<Longrightarrow> t \<in> molecule_titles st) \<Longrightarrow>
   MolTitle ` set mols \<subseteq> molecule_titles st' \<and> molecule_titles st \<subseteq> molecule_titles st'"
proof (induction mols arbitrary: st created)
  case Nil
  then show ?case by simp
next
  case (Cons mol mols)
  show ?case
  proof (cases "lookup_bool titles (MolTitle mol)")
    case True
    with Cons.prems(1) have "seedLoop env titles mols st created = (st', n, None)" by simp
    from Cons.IH [OF this Cons.prems(2)] Cons.prems(2) [OF True]
    show ?thesis by auto
  next
    case False
    define x where "x = \<lparr>ID = assign_id env st, Title = MolTitle mol,
        Description = MolDescription mol, Status = ''open'', Priority = 2,
        IssueType = ''molecule'', Assignee = '''', CloseReason = ''''\<rparr>"
    from False Cons.prems(1)
    have run: "seedLoop env titles mols (st @ [x]) (created + 1) = (st', n, None)"
      by (auto simp: beads_Create_def x_def split: option.splits)
    have grow: "molecule_titles (st @ [x]) = insert (MolTitle mol) (molecule_titles st)"
      by (simp add: molecule_titles_append x_def)
    have "\<And>t. lookup_bool titles t \<Longrightarrow> t \<in> molecule_titles (st @ [x])"
      using Cons.prems(2) grow by simp
    from Cons.IH [OF run this] grow
    show ?thesis by auto
  qed
qed

lemma seed_nothing_to_do:
  assumes "builtin_titles \<subseteq> molecule_titles st"
  shows "SeedBuiltinMolecules env st = (st, 0, seed_list_fault env)"
proof (cases "seed_list_fault env")
  case (Some e)
  then show ?thesis by (simp add: SeedBuiltinMolecules_def beads_List_def)
next
  case None
  from assms have "list_all (\<lambda>m. lookup_bool
      (map (\<lambda>issue. (Title issue, True)) (filter (\<lambda>x. IssueType x = ''molecule'') st))
      (MolTitle m)) BuiltinMolecules"
    by (auto simp: existing_titles builtin_titles_def list_all_iff)
  from seedLoop_nothing_to_do [OF this] None show ?thesis
    by (simp add: SeedBuiltinMolecules_def list_molecules Let_def)
qed

lemma seed_seeds:
  assumes "SeedBuiltinMolecules env st = (st1, n, None)"
  shows "builtin_titles \<subseteq> molecule_titles st1"
proof (cases "seed_list_fault env")
  case (Some e)
  with assms show ?thesis by (simp add: SeedBuiltinMolecules_def beads_List_def)
next
  case None
  with assms have "seedLoop env
      (map (\<lambda>issue. (Title issue, True)) (filter (\<lambda>x. IssueType x = ''molecule'') st))
      BuiltinMolecules st 0 = (st1, n, None)"
    by (simp add: SeedBuiltinMolecules_def list_molecules Let_def)
  from seedLoop_seeds [OF this] show ?thesis
    by (simp add: existing_titles builtin_titles_def)
qed

text \<open>
  C9. SeedBuiltinMolecules is idempotent. Over a store that already holds a molecule
  with the title of every built-in molecule it creates nothing, leaves the store as it
  is and reports zero created. So a second run over the store that a first, successful
  run left creates nothing: the store, and with it the set of molecule titles, is the
  one after the first run, and the second run reports zero created.
\<close>

theorem seed_builtin_molecules_idempotent:
  "(builtin_titles \<subseteq> molecule_titles st \<longrightarrow>
      SeedBuiltinMolecules env st = (st, 0, seed_list_fault env)) \<and>
   (\<forall>st1 n. SeedBuiltinMolecules env st = (st1, n, None) \<longrightarrow>
      SeedBuiltinMolecules env' st1 = (st1, 0, seed_list_fault env') \<and>
      molecule_titles (fst (SeedBuiltinMolecules env' st1)) = molecule_titles st1)"
  using seed_nothing_to_do seed_seeds by (metis fst_conv)

lemma builtin_titles_eval:
  "map MolTitle BuiltinMolecules =
     [''Engineer in a Box'', ''Quick Fix'', ''Research'', ''Install Go Binary'']"
  by (simp add: BuiltinMolecules_def EngineerInBoxMolecule_def QuickFixMolecule_def
      ResearchMolecule_def InstallGoBinaryMolecule_def)

lemma first_seed:
  "snd (SeedBuiltinMolecules calm_seed_env []) = (4, None)"
  by (simp add: SeedBuiltinMolecules_def BuiltinMolecules_def list_molecules calm_seed_env_def
      lookup_bool_def beads_Create_def Let_def)

text \<open>
  The theorem at the empty store: the first run creates the four built-in molecules,
  the second run none.
\<close>

theorem seed_builtin_molecules_idempotent_witness:
  "snd (SeedBuiltinMolecules calm_seed_env []) = (4, None) \<and>
   map Title (fst (SeedBuiltinMolecules calm_seed_env [])) =
     [''Engineer in a Box'', ''Quick Fix'', ''Research'', ''Install Go Binary''] \<and>
   SeedBuiltinMolecules calm_seed_env (fst (SeedBuiltinMolecules calm_seed_env [])) =
     (fst (SeedBuiltinMolecules calm_seed_env []), 0, None)"
proof -
  have run: "SeedBuiltinMolecules calm_seed_env [] =
      (fst (SeedBuiltinMolecules calm_seed_env []), 4, None)"
    using first_seed by (cases "SeedBuiltinMolecules calm_seed_env []") simp
  have titles: "map Title (fst (SeedBuiltinMolecules calm_seed_env [])) =
     [''Engineer in a Box'', ''Quick Fix'', ''Research'', ''Install Go Binary'']"
    using builtin_titles_eval
    by (simp add: SeedBuiltinMolecules_def BuiltinMolecules_def list_molecules calm_seed_env_def
        lookup_bool_def beads_Create_def Let_def)
  have calm: "seed_list_fault calm_seed_env = None" by (simp add: calm_seed_env_def)
  from seed_builtin_molecules_idempotent [of "[]" calm_seed_env calm_seed_env] run calm
  have "SeedBuiltinMolecules calm_seed_env (fst (SeedBuiltinMolecules calm_seed_env [])) =
     (fst (SeedBuiltinMolecules calm_seed_env []), 0, None)"
    by metis
  with first_seed titles show ?thesis by simp
qed

end
